theory Spec2Isabelle
  imports Main "HOL-Library.Word"
begin

section \<open>Wire types (mcp/client.go)\<close>

text \<open>
  Go's \<open>int64\<close> is a 64-bit word: \<open>atomic.AddInt64\<close> wraps around, \<open>sint\<close> reads the
  signed value.
\<close>

type_synonym int64 = "64 word"

text \<open>
  A value of Go's \<open>interface{}\<close> as the JSON package produces and consumes it. Request
  parameters, tool arguments and input schemas are payload here: they are built and
  carried, never computed on.
\<close>

datatype json =
    JNull
  | JBool bool
  | JNumber int
  | JString string
  | JArray "json list"
  | JObject "(string \<times> json) list"

text \<open>\<open>JSONRPCRequest\<close>; \<open>Params\<close> is \<open>None\<close> for a nil interface (omitted on the wire).\<close>

record JSONRPCRequest =
  req_JSONRPC :: string
  req_ID :: int64
  Method :: string
  Params :: "json option"

record JSONRPCError =
  Code :: int
  Message :: string

text \<open>
  \<open>JSONRPCResponse\<close>. \<open>Result\<close> is a \<open>json.RawMessage\<close>: \<open>None\<close> is the nil slice,
  \<open>Some bytes\<close> the raw text of the member. \<open>Error\<close> is a pointer: \<open>None\<close> is nil.
\<close>

record JSONRPCResponse =
  JSONRPC :: string
  ID :: int64
  Result :: "string option"
  Error :: "JSONRPCError option"

record MCPTool =
  Name :: string
  Description :: string
  InputSchema :: json

record MCPToolsListResult =
  Tools :: "MCPTool list"

record MCPContent =
  Type :: string
  Text :: string

record MCPToolCallResult =
  Content :: "MCPContent list"
  IsError :: bool

section \<open>Configuration types (mcp/config.go)\<close>

record MCPServerConfig =
  Command :: string
  Args :: "string list"
  Env :: "(string \<times> string) list"
  cfg_Type :: string
  URL :: string
  cfg_Description :: string

definition IsStdio :: "MCPServerConfig \<Rightarrow> bool" where
  "IsStdio c \<longleftrightarrow> cfg_Type c = '''' \<or> cfg_Type c = ''stdio''"

definition IsSSE :: "MCPServerConfig \<Rightarrow> bool" where
  "IsSSE c \<longleftrightarrow> cfg_Type c = ''sse''"

definition IsHTTP :: "MCPServerConfig \<Rightarrow> bool" where
  "IsHTTP c \<longleftrightarrow> cfg_Type c = ''http''"

text \<open>
  \<open>MCPConfig\<close>. The Go map \<open>MCPServers\<close> is \<open>None\<close> when nil; otherwise it is the list
  of its entries, keys distinct, in the order in which \<open>range\<close> visits them (Go leaves
  that order unspecified, so every order is a possible value).
\<close>

record MCPConfig =
  MCPServers :: "(string \<times> MCPServerConfig) list option"

section \<open>Errors\<close>

text \<open>
  Every error value the package builds with \<open>fmt.Errorf\<close>, by its format string. A
  wrapped error of this package (\<open>%w\<close>) is kept as the argument; a wrapped error of
  the operating system or the standard library is left out.
\<close>

datatype error =
    MarshalRequestFailed          \<comment> \<open>failed to marshal request\<close>
  | WriteRequestFailed            \<comment> \<open>failed to write request\<close>
  | ReadResponseFailed            \<comment> \<open>failed to read response\<close>
  | RPCError int string           \<comment> \<open>RPC error %d: %s\<close>
  | NoResponse nat                \<comment> \<open>no response received after %d attempts\<close>
  | InitializeFailed error        \<comment> \<open>initialize failed: %w\<close>
  | ToolsListFailed error         \<comment> \<open>tools/list failed: %w\<close>
  | ParseToolsListFailed          \<comment> \<open>failed to parse tools list\<close>
  | ToolsCallFailed error         \<comment> \<open>tools/call failed: %w\<close>
  | ParseToolResultFailed         \<comment> \<open>failed to parse tool result\<close>
  | ToolError string              \<comment> \<open>tool error: %s\<close>
  | StdinPipeFailed               \<comment> \<open>failed to get stdin pipe\<close>
  | StdoutPipeFailed              \<comment> \<open>failed to get stdout pipe\<close>
  | StartFailed                   \<comment> \<open>failed to start MCP server\<close>
  | URLRequired                   \<comment> \<open>URL is required for HTTP/SSE transport\<close>
  | CreateHTTPRequestFailed       \<comment> \<open>failed to create HTTP request\<close>
  | HTTPRequestFailed             \<comment> \<open>HTTP request failed\<close>
  | HTTPError nat string          \<comment> \<open>HTTP error %d: %s\<close>
  | UnmarshalResponseFailed       \<comment> \<open>failed to unmarshal response\<close>
  | UnknownTool string            \<comment> \<open>unknown MCP tool: %s\<close>
  | ReadFileFailed                \<comment> \<open>the error of os.ReadFile, returned as it is\<close>
  | ConfigParseFailed             \<comment> \<open>the error of json.Unmarshal, returned as it is\<close>
  | LoadConfigFailed error        \<comment> \<open>failed to load MCP config: %w\<close>
  | NilDereference                \<comment> \<open>the runtime panic of a call through a nil pointer\<close>

section \<open>The standard library\<close>

text \<open>
  The functions of Go's standard library that the package calls and that are not code
  of this repository are parameters: the theorems hold for every choice of them.
  \<open>None\<close> is the library's error return.
\<close>

record stdlib =
  json_Marshal :: "JSONRPCRequest \<Rightarrow> string option"
  json_Unmarshal_Response :: "string \<Rightarrow> JSONRPCResponse option"
  json_Unmarshal_ToolsList :: "string \<Rightarrow> MCPToolsListResult option"
  json_Unmarshal_ToolCall :: "string \<Rightarrow> MCPToolCallResult option"
  json_Unmarshal_Config :: "string \<Rightarrow> MCPConfig option"
  http_NewRequest_ok :: "string \<Rightarrow> bool"
  filepath_Join :: "string \<Rightarrow> string \<Rightarrow> string"

text \<open>
  \<open>bytes.TrimSpace\<close> slices off leading and trailing white space as \<open>unicode.IsSpace\<close>
  defines it, on runes decoded from UTF-8. \<open>IsSpace\<close> holds of the six ASCII bytes
  tab, line feed, vertical tab, form feed, carriage return and space, and of the runes
  U+0085, U+00A0 (encoded \<open>C2 85\<close>, \<open>C2 A0\<close>), U+1680 (\<open>E1 9A 80\<close>), U+2000 to
  U+200A (\<open>E2 80 80\<close> to \<open>E2 80 8A\<close>), U+2028, U+2029, U+202F (\<open>E2 80 A8\<close>,
  \<open>E2 80 A9\<close>, \<open>E2 80 AF\<close>), U+205F (\<open>E2 81 9F\<close>) and U+3000 (\<open>E3 80 80\<close>).
  A byte from 0x80 on that does not begin (at the front) or end (at the back) one of
  these encodings decodes to another rune or to \<open>RuneError\<close> of width 1, which is no
  space, and the trimming stops there.
\<close>

definition asciiSpace :: "char \<Rightarrow> bool" where
  "asciiSpace c \<longleftrightarrow>
     c = CHR 0x09 \<or> c = CHR 0x0A \<or> c = CHR 0x0B \<or> c = CHR 0x0C \<or> c = CHR 0x0D \<or> c = CHR 0x20"

text \<open>The white-space runes encoded in two bytes and in three.\<close>

definition space2 :: "char \<Rightarrow> char \<Rightarrow> bool" where
  "space2 a b \<longleftrightarrow> a = CHR 0xC2 \<and> (b = CHR 0x85 \<or> b = CHR 0xA0)"

definition space3 :: "char \<Rightarrow> char \<Rightarrow> char \<Rightarrow> bool" where
  "space3 a b c \<longleftrightarrow>
     (a = CHR 0xE1 \<and> b = CHR 0x9A \<and> c = CHR 0x80) \<or>
     (a = CHR 0xE2 \<and> b = CHR 0x80 \<and>
        ((0x80 \<le> (of_char c :: nat) \<and> (of_char c :: nat) \<le> 0x8A) \<or>
         c = CHR 0xA8 \<or> c = CHR 0xA9 \<or> c = CHR 0xAF)) \<or>
     (a = CHR 0xE2 \<and> b = CHR 0x81 \<and> c = CHR 0x9F) \<or>
     (a = CHR 0xE3 \<and> b = CHR 0x80 \<and> c = CHR 0x80)"

text \<open>\<open>TrimLeftFunc(s, unicode.IsSpace)\<close>: the white-space runes at the front go.\<close>

fun TrimLeftSpace :: "string \<Rightarrow> string" where
  "TrimLeftSpace (a # b # c # s) =
     (if asciiSpace a then TrimLeftSpace (b # c # s)
      else if space2 a b then TrimLeftSpace (c # s)
      else if space3 a b c then TrimLeftSpace s
      else a # b # c # s)"
| "TrimLeftSpace [a, b] =
     (if asciiSpace a then TrimLeftSpace [b] else if space2 a b then [] else [a, b])"
| "TrimLeftSpace [a] = (if asciiSpace a then [] else [a])"
| "TrimLeftSpace [] = []"

text \<open>
  \<open>TrimRightFunc(s, unicode.IsSpace)\<close> on the bytes in reverse order: \<open>c\<close> is the last
  byte, \<open>b\<close> the one before it, \<open>a\<close> the one before that.
\<close>

fun TrimRightSpaceRev :: "string \<Rightarrow> string" where
  "TrimRightSpaceRev (c # b # a # s) =
     (if asciiSpace c then TrimRightSpaceRev (b # a # s)
      else if space2 b c then TrimRightSpaceRev (a # s)
      else if space3 a b c then TrimRightSpaceRev s
      else c # b # a # s)"
| "TrimRightSpaceRev [c, b] =
     (if asciiSpace c then TrimRightSpaceRev [b] else if space2 b c then [] else [c, b])"
| "TrimRightSpaceRev [c] = (if asciiSpace c then [] else [c])"
| "TrimRightSpaceRev [] = []"

definition TrimSpace :: "string \<Rightarrow> string" where
  "TrimSpace s = rev (TrimRightSpaceRev (rev (TrimLeftSpace s)))"

section \<open>Process connection (mcp/client.go)\<close>

text \<open>
  What one \<open>ReadBytes('\n')\<close> on the subprocess's standard output gives: a line (with
  its delimiter) or an error. The stream of a process is the list of what its coming
  reads give; when the list is used up the stream is at its end and a read fails.
\<close>

datatype read_event = Line string | ReadError

text \<open>
  \<open>Client\<close>. \<open>name\<close>, \<open>requestID\<close> and \<open>tools\<close> are the struct's fields. The fields
  \<open>cmd\<close>, \<open>stdin\<close> and \<open>stdout\<close> are the subprocess as the client sees it:
  \<open>stdin_sent\<close> is what has been written to its input, \<open>stdin_faults\<close> says for the
  coming writes which ones fail (none once the list is used up), \<open>stdin_closed\<close> and
  \<open>running\<close> are changed by \<open>Close\<close>. The mutex is not modelled: calls are sequential.
\<close>

record Client =
  name :: string
  requestID :: int64
  tools :: "MCPTool list"
  stdin_sent :: "string list"
  stdin_faults :: "bool list"
  stdin_closed :: bool
  stdout :: "read_event list"
  running :: bool

definition Client_Name :: "Client \<Rightarrow> string" where
  "Client_Name c = name c"

definition Client_Tools :: "Client \<Rightarrow> MCPTool list" where
  "Client_Tools c = tools c"

text \<open>\<open>c.stdin.Write(data)\<close>: whether it succeeded, and the client after it.\<close>

definition stdin_Write :: "Client \<Rightarrow> string \<Rightarrow> bool \<times> Client" where
  "stdin_Write c data =
     (if stdin_closed c then (False, c)
      else case stdin_faults c of
             [] \<Rightarrow> (True, c\<lparr>stdin_sent := stdin_sent c @ [data]\<rparr>)
           | f # fs \<Rightarrow>
               if f then (False, c\<lparr>stdin_faults := fs\<rparr>)
               else (True, c\<lparr>stdin_faults := fs, stdin_sent := stdin_sent c @ [data]\<rparr>))"

definition maxAttempts :: nat where
  "maxAttempts = 50"

text \<open>
  The read loop of \<open>sendRequest\<close>: \<open>for attempt := 0; attempt < maxAttempts; attempt++\<close>.
  It returns the call's result and what is left of the stream. Each \<open>continue\<close> of the
  source is the recursive call with \<open>attempt + 1\<close>.
\<close>

function scan ::
  "stdlib \<Rightarrow> int64 \<Rightarrow> nat \<Rightarrow> read_event list \<Rightarrow> (error + JSONRPCResponse) \<times> read_event list"
where
  "scan lib id' attempt out =
     (if attempt < maxAttempts then
        (case out of
           [] \<Rightarrow> (Inl ReadResponseFailed, [])
         | ReadError # rest \<Rightarrow> (Inl ReadResponseFailed, rest)
         | Line raw # rest \<Rightarrow>
             (let line = TrimSpace raw in
              if length line = 0 then scan lib id' (attempt + 1) rest
              else if line ! 0 \<noteq> CHR ''{'' then scan lib id' (attempt + 1) rest
              else
                (case json_Unmarshal_Response lib line of
                   None \<Rightarrow> scan lib id' (attempt + 1) rest
                 | Some resp \<Rightarrow>
                     if ID resp = 0 \<and> Result resp = None \<and> Error resp = None
                     then scan lib id' (attempt + 1) rest
                     else if ID resp = id' then
                       (case Error resp of
                          Some e \<Rightarrow> (Inl (RPCError (Code e) (Message e)), rest)
                        | None \<Rightarrow> (Inr resp, rest))
                     else scan lib id' (attempt + 1) rest)))
      else (Inl (NoResponse maxAttempts), out))"
  by pat_completeness auto
termination
  by (relation "measure (\<lambda>(lib, id', attempt, out). maxAttempts - attempt)") auto

declare scan.simps [simp del]

definition sendRequest ::
  "stdlib \<Rightarrow> Client \<Rightarrow> string \<Rightarrow> json option \<Rightarrow> (error + JSONRPCResponse) \<times> Client"
where
  "sendRequest lib c0 method params =
     (let id' = requestID c0 + 1;
          c = c0\<lparr>requestID := id'\<rparr>;
          req = \<lparr>req_JSONRPC = ''2.0'', req_ID = id', Method = method, Params = params\<rparr>
      in case json_Marshal lib req of
           None \<Rightarrow> (Inl MarshalRequestFailed, c)
         | Some data \<Rightarrow>
             (case stdin_Write c (data @ [CHR 0x0A]) of
                (False, c) \<Rightarrow> (Inl WriteRequestFailed, c)
              | (True, c) \<Rightarrow>
                  (case scan lib id' 0 (stdout c) of
                     (r, rest) \<Rightarrow> (r, c\<lparr>stdout := rest\<rparr>))))"

text \<open>\<open>resp.Result\<close> as the bytes handed to \<open>json.Unmarshal\<close>: a nil slice has none.\<close>

definition rawBytes :: "string option \<Rightarrow> string" where
  "rawBytes r = (case r of None \<Rightarrow> [] | Some b \<Rightarrow> b)"

definition initializeParams :: json where
  "initializeParams =
     JObject [(''protocolVersion'', JString ''2024-11-05''),
              (''capabilities'', JObject []),
              (''clientInfo'', JObject [(''name'', JString ''bitca''),
                                         (''version'', JString ''1.0.0'')])]"

definition Client_Initialize :: "stdlib \<Rightarrow> Client \<Rightarrow> error option \<times> Client" where
  "Client_Initialize lib c0 =
     (case sendRequest lib c0 ''initialize'' (Some initializeParams) of
        (Inl err, c) \<Rightarrow> (Some (InitializeFailed err), c)
      | (Inr resp, c) \<Rightarrow> (None, c))"

definition Client_ListTools :: "stdlib \<Rightarrow> Client \<Rightarrow> (error + MCPTool list) \<times> Client" where
  "Client_ListTools lib c0 =
     (case sendRequest lib c0 ''tools/list'' None of
        (Inl err, c) \<Rightarrow> (Inl (ToolsListFailed err), c)
      | (Inr resp, c) \<Rightarrow>
          (case json_Unmarshal_ToolsList lib (rawBytes (Result resp)) of
             None \<Rightarrow> (Inl ParseToolsListFailed, c)
           | Some result \<Rightarrow> (Inr (Tools result), c\<lparr>tools := Tools result\<rparr>)))"

text \<open>
  The two loops of \<open>CallTool\<close> over \<open>result.Content\<close>: the texts of the blocks of type
  \<open>text\<close>, appended in order.
\<close>

definition textOf :: "MCPContent list \<Rightarrow> string" where
  "textOf cs = foldl (\<lambda>acc content. if Type content = ''text'' then acc @ Text content else acc) [] cs"

definition toolCallParams :: "string \<Rightarrow> json \<Rightarrow> json" where
  "toolCallParams tool arguments = JObject [(''name'', JString tool), (''arguments'', arguments)]"

text \<open>What \<open>CallTool\<close> does with the response, the same in both clients.\<close>

definition toolCallOutput :: "stdlib \<Rightarrow> JSONRPCResponse \<Rightarrow> error + string" where
  "toolCallOutput lib resp =
     (case json_Unmarshal_ToolCall lib (rawBytes (Result resp)) of
        None \<Rightarrow> Inl ParseToolResultFailed
      | Some result \<Rightarrow>
          if IsError result then Inl (ToolError (textOf (Content result)))
          else Inr (textOf (Content result)))"

definition Client_CallTool ::
  "stdlib \<Rightarrow> Client \<Rightarrow> string \<Rightarrow> json \<Rightarrow> (error + string) \<times> Client"
where
  "Client_CallTool lib c0 tool arguments =
     (case sendRequest lib c0 ''tools/call'' (Some (toolCallParams tool arguments)) of
        (Inl err, c) \<Rightarrow> (Inl (ToolsCallFailed err), c)
      | (Inr resp, c) \<Rightarrow> (toolCallOutput lib resp, c))"

text \<open>\<open>Close\<close>: the input pipe is closed, the process killed and waited for.\<close>

definition Client_Close :: "Client \<Rightarrow> Client" where
  "Client_Close c = c\<lparr>stdin_closed := True, running := False\<rparr>"

section \<open>The operating system\<close>

text \<open>
  What starting a subprocess gives: one of the three failures \<open>NewClient\<close> tells apart,
  or a running process with the stream of its output and the faults of its input.
\<close>

datatype spawn = StdinPipeError | StdoutPipeError | StartError | Started "read_event list" "bool list"

datatype file_read = NotExist | ReadFault | Contents string

text \<open>
  What \<open>httpClient.Do\<close> gives: a transport error, or a response with its status code,
  the bytes \<open>io.ReadAll\<close> reads from its body and whether it read them without error.
\<close>

datatype http_event = TransportError | Response nat string bool

text \<open>
  The world outside the program, as a parameter: the home directory, the file system,
  and for each configured server what starting its command gives or what its HTTP
  endpoint answers to the coming requests.
\<close>

record opsys =
  UserHomeDir :: "string option"
  ReadFile :: "string \<Rightarrow> file_read"
  exec_Start :: "string \<Rightarrow> MCPServerConfig \<Rightarrow> spawn"
  http_endpoint :: "string \<Rightarrow> MCPServerConfig \<Rightarrow> http_event list"

definition NewClient :: "opsys \<Rightarrow> string \<Rightarrow> MCPServerConfig \<Rightarrow> error + Client" where
  "NewClient sys nm config =
     (case exec_Start sys nm config of
        StdinPipeError \<Rightarrow> Inl StdinPipeFailed
      | StdoutPipeError \<Rightarrow> Inl StdoutPipeFailed
      | StartError \<Rightarrow> Inl StartFailed
      | Started out faults \<Rightarrow>
          Inr \<lparr>name = nm, requestID = 0, tools = [], stdin_sent = [], stdin_faults = faults,
               stdin_closed = False, stdout = out, running = True\<rparr>)"

section \<open>HTTP connection (mcp/http\_client.go)\<close>

text \<open>
  \<open>HTTPClient\<close>. The field \<open>httpClient\<close> is the network as the client sees it:
  \<open>http_posts\<close> are the requests sent (URL and body), \<open>http_replies\<close> what the coming
  requests give (a transport error once the list is used up).
\<close>

record HTTPClient =
  http_name :: string
  baseURL :: string
  http_requestID :: int64
  http_tools :: "MCPTool list"
  isSSE :: bool
  http_posts :: "(string \<times> string) list"
  http_replies :: "http_event list"

definition NewHTTPClient :: "opsys \<Rightarrow> string \<Rightarrow> MCPServerConfig \<Rightarrow> error + HTTPClient" where
  "NewHTTPClient sys nm config =
     (if URL config = '''' then Inl URLRequired
      else Inr \<lparr>http_name = nm, baseURL = URL config, http_requestID = 0, http_tools = [],
                isSSE = IsSSE config, http_posts = [],
                http_replies = http_endpoint sys nm config\<rparr>)"

definition HTTPClient_Name :: "HTTPClient \<Rightarrow> string" where
  "HTTPClient_Name c = http_name c"

definition HTTPClient_Tools :: "HTTPClient \<Rightarrow> MCPTool list" where
  "HTTPClient_Tools c = http_tools c"

text \<open>\<open>c.httpClient.Do(httpReq)\<close>: what it gives, and the client after it.\<close>

definition httpClient_Do :: "HTTPClient \<Rightarrow> string \<Rightarrow> string \<Rightarrow> http_event \<times> HTTPClient" where
  "httpClient_Do c url data =
     (case http_replies c of
        [] \<Rightarrow> (TransportError, c\<lparr>http_posts := http_posts c @ [(url, data)]\<rparr>)
      | ev # evs \<Rightarrow> (ev, c\<lparr>http_posts := http_posts c @ [(url, data)], http_replies := evs\<rparr>))"

definition HTTPClient_sendRequest ::
  "stdlib \<Rightarrow> HTTPClient \<Rightarrow> string \<Rightarrow> json option \<Rightarrow> (error + JSONRPCResponse) \<times> HTTPClient"
where
  "HTTPClient_sendRequest lib c0 method params =
     (let id' = http_requestID c0 + 1;
          c = c0\<lparr>http_requestID := id'\<rparr>;
          req = \<lparr>req_JSONRPC = ''2.0'', req_ID = id', Method = method, Params = params\<rparr>
      in case json_Marshal lib req of
           None \<Rightarrow> (Inl MarshalRequestFailed, c)
         | Some data \<Rightarrow>
             (let url = (if isSSE c then baseURL c @ ''/message'' else baseURL c) in
              if \<not> http_NewRequest_ok lib url then (Inl CreateHTTPRequestFailed, c)
              else
                (case httpClient_Do c url data of
                   (TransportError, c) \<Rightarrow> (Inl HTTPRequestFailed, c)
                 | (Response status body complete, c) \<Rightarrow>
                     if status \<noteq> 200 then (Inl (HTTPError status body), c)
                     else if \<not> complete then (Inl ReadResponseFailed, c)
                     else
                       (case json_Unmarshal_Response lib body of
                          None \<Rightarrow> (Inl UnmarshalResponseFailed, c)
                        | Some resp \<Rightarrow>
                            (case Error resp of
                               Some e \<Rightarrow> (Inl (RPCError (Code e) (Message e)), c)
                             | None \<Rightarrow> (Inr resp, c))))))"

definition HTTPClient_Initialize :: "stdlib \<Rightarrow> HTTPClient \<Rightarrow> error option \<times> HTTPClient" where
  "HTTPClient_Initialize lib c0 =
     (case HTTPClient_sendRequest lib c0 ''initialize'' (Some initializeParams) of
        (Inl err, c) \<Rightarrow> (Some (InitializeFailed err), c)
      | (Inr resp, c) \<Rightarrow> (None, c))"

definition HTTPClient_ListTools ::
  "stdlib \<Rightarrow> HTTPClient \<Rightarrow> (error + MCPTool list) \<times> HTTPClient"
where
  "HTTPClient_ListTools lib c0 =
     (case HTTPClient_sendRequest lib c0 ''tools/list'' None of
        (Inl err, c) \<Rightarrow> (Inl (ToolsListFailed err), c)
      | (Inr resp, c) \<Rightarrow>
          (case json_Unmarshal_ToolsList lib (rawBytes (Result resp)) of
             None \<Rightarrow> (Inl ParseToolsListFailed, c)
           | Some result \<Rightarrow> (Inr (Tools result), c\<lparr>http_tools := Tools result\<rparr>)))"

definition HTTPClient_CallTool ::
  "stdlib \<Rightarrow> HTTPClient \<Rightarrow> string \<Rightarrow> json \<Rightarrow> (error + string) \<times> HTTPClient"
where
  "HTTPClient_CallTool lib c0 tool arguments =
     (case HTTPClient_sendRequest lib c0 ''tools/call'' (Some (toolCallParams tool arguments)) of
        (Inl err, c) \<Rightarrow> (Inl (ToolsCallFailed err), c)
      | (Inr resp, c) \<Rightarrow> (toolCallOutput lib resp, c))"

text \<open>\<open>Close\<close> of an HTTP client does nothing.\<close>

definition HTTPClient_Close :: "HTTPClient \<Rightarrow> HTTPClient" where
  "HTTPClient_Close c = c"

section \<open>Configuration loader (mcp/config.go)\<close>

text \<open>
  The first block of \<open>LoadMCPConfig\<close>, which expands a leading \<open>~\<close>: the path to read,
  or \<open>None\<close> where the block returns the empty configuration at once (no home
  directory).
\<close>

definition expandHome :: "stdlib \<Rightarrow> opsys \<Rightarrow> string \<Rightarrow> string option" where
  "expandHome lib sys path =
     (if length path > 0 \<and> path ! 0 = CHR ''~'' then
        (case UserHomeDir sys of
           None \<Rightarrow> None
         | Some home \<Rightarrow> Some (filepath_Join lib home (drop 1 path)))
      else Some path)"

text \<open>
  \<open>LoadMCPConfig\<close> returns \<open>(*MCPConfig, error)\<close> with exactly one of the two nil:
  \<open>Inl\<close> is the error (and a nil configuration), \<open>Inr\<close> the configuration.
\<close>

definition LoadMCPConfig :: "stdlib \<Rightarrow> opsys \<Rightarrow> string \<Rightarrow> error + MCPConfig" where
  "LoadMCPConfig lib sys path0 =
     (case expandHome lib sys path0 of
        None \<Rightarrow> Inr \<lparr>MCPServers = Some []\<rparr>
      | Some path \<Rightarrow>
          (case ReadFile sys path of
             NotExist \<Rightarrow> Inr \<lparr>MCPServers = Some []\<rparr>
           | ReadFault \<Rightarrow> Inl ReadFileFailed
           | Contents data \<Rightarrow>
               (case json_Unmarshal_Config lib data of
                  None \<Rightarrow> Inl ConfigParseFailed
                | Some config \<Rightarrow>
                    if MCPServers config = None then Inr (config\<lparr>MCPServers := Some []\<rparr>)
                    else Inr config)))"

section \<open>Manager (mcp/tools.go)\<close>

text \<open>The two implementations of the interface \<open>MCPClient\<close>, and its methods.\<close>

datatype conn = ProcessConn Client | HTTPConn HTTPClient

definition MCPClient_Name :: "conn \<Rightarrow> string" where
  "MCPClient_Name k = (case k of ProcessConn c \<Rightarrow> Client_Name c | HTTPConn h \<Rightarrow> HTTPClient_Name h)"

definition MCPClient_Tools :: "conn \<Rightarrow> MCPTool list" where
  "MCPClient_Tools k = (case k of ProcessConn c \<Rightarrow> Client_Tools c | HTTPConn h \<Rightarrow> HTTPClient_Tools h)"

definition MCPClient_Initialize :: "stdlib \<Rightarrow> conn \<Rightarrow> error option \<times> conn" where
  "MCPClient_Initialize lib k =
     (case k of
        ProcessConn c \<Rightarrow> map_prod (\<lambda>r. r) ProcessConn (Client_Initialize lib c)
      | HTTPConn h \<Rightarrow> map_prod (\<lambda>r. r) HTTPConn (HTTPClient_Initialize lib h))"

definition MCPClient_ListTools :: "stdlib \<Rightarrow> conn \<Rightarrow> (error + MCPTool list) \<times> conn" where
  "MCPClient_ListTools lib k =
     (case k of
        ProcessConn c \<Rightarrow> map_prod (\<lambda>r. r) ProcessConn (Client_ListTools lib c)
      | HTTPConn h \<Rightarrow> map_prod (\<lambda>r. r) HTTPConn (HTTPClient_ListTools lib h))"

definition MCPClient_CallTool ::
  "stdlib \<Rightarrow> conn \<Rightarrow> string \<Rightarrow> json \<Rightarrow> (error + string) \<times> conn"
where
  "MCPClient_CallTool lib k tool arguments =
     (case k of
        ProcessConn c \<Rightarrow> map_prod (\<lambda>r. r) ProcessConn (Client_CallTool lib c tool arguments)
      | HTTPConn h \<Rightarrow> map_prod (\<lambda>r. r) HTTPConn (HTTPClient_CallTool lib h tool arguments))"

definition MCPClient_Close :: "conn \<Rightarrow> conn" where
  "MCPClient_Close k =
     (case k of ProcessConn c \<Rightarrow> ProcessConn (Client_Close c) | HTTPConn h \<Rightarrow> HTTPConn (HTTPClient_Close h))"

text \<open>
  The manager's two maps hold pointers: a client registered under its server name and
  under each of its tools is one object. The objects live in a store addressed by
  naturals; \<open>&Client{...}\<close> takes the next free address.
\<close>

record Manager =
  clients :: "string \<rightharpoonup> nat"
  toolToClient :: "string \<rightharpoonup> nat"

text \<open>What \<open>log.Printf\<close> writes in \<open>LoadFromConfig\<close>, by its format string.\<close>

datatype log_line =
    UnsupportedTransport string string
  | StartWarning string error
  | InitializeWarning string error
  | ListToolsWarning string error
  | LoadedTools nat string

record runtime =
  heap :: "conn list"
  logged :: "log_line list"

definition NewManager :: Manager where
  "NewManager = \<lparr>clients = Map.empty, toolToClient = Map.empty\<rparr>"

definition new_object :: "conn \<Rightarrow> runtime \<Rightarrow> nat \<times> runtime" where
  "new_object k rt = (length (heap rt), rt\<lparr>heap := heap rt @ [k]\<rparr>)"

definition object_at :: "runtime \<Rightarrow> nat \<Rightarrow> conn option" where
  "object_at rt a = (if a < length (heap rt) then Some (heap rt ! a) else None)"

text \<open>
  A method call through the pointer \<open>a\<close>: the method runs on the object and the object
  is updated in place. A pointer to no object is Go's nil dereference.
\<close>

definition invoke :: "(conn \<Rightarrow> 'r \<times> conn) \<Rightarrow> 'r \<Rightarrow> nat \<Rightarrow> runtime \<Rightarrow> 'r \<times> runtime" where
  "invoke method panic a rt =
     (case object_at rt a of
        None \<Rightarrow> (panic, rt)
      | Some k \<Rightarrow> (case method k of (r, k') \<Rightarrow> (r, rt\<lparr>heap := (heap rt)[a := k']\<rparr>)))"

definition logf :: "log_line \<Rightarrow> runtime \<Rightarrow> runtime" where
  "logf l rt = rt\<lparr>logged := logged rt @ [l]\<rparr>"

definition closeAt :: "nat \<Rightarrow> runtime \<Rightarrow> runtime" where
  "closeAt a rt = snd (invoke (\<lambda>k. ((), MCPClient_Close k)) () a rt)"

text \<open>The inner loop of \<open>LoadFromConfig\<close>: \<open>m.toolToClient[tool.Name] = client\<close>.\<close>

definition mapTools :: "Manager \<Rightarrow> nat \<Rightarrow> MCPTool list \<Rightarrow> Manager" where
  "mapTools m a ts = foldl (\<lambda>m tool. m\<lparr>toolToClient := (toolToClient m)(Name tool \<mapsto> a)\<rparr>) m ts"

text \<open>
  The body of the outer loop of \<open>LoadFromConfig\<close>, for one entry of the map. Every
  \<open>continue\<close> of the source is a branch that returns the manager as it was.
\<close>

definition loadServer ::
  "stdlib \<Rightarrow> opsys \<Rightarrow> Manager \<times> runtime \<Rightarrow> string \<times> MCPServerConfig \<Rightarrow> Manager \<times> runtime"
where
  "loadServer lib sys state entry =
     (case state of (m, rt) \<Rightarrow>
     (case entry of (nm, serverConfig) \<Rightarrow>
        (let made =
           (if IsStdio serverConfig
            then Some (map_sum (\<lambda>e. e) ProcessConn (NewClient sys nm serverConfig))
            else if IsSSE serverConfig \<or> IsHTTP serverConfig
            then Some (map_sum (\<lambda>e. e) HTTPConn (NewHTTPClient sys nm serverConfig))
            else None)
         in (case made of
              None \<Rightarrow> (m, logf (UnsupportedTransport (cfg_Type serverConfig) nm) rt)
            | Some (Inl err) \<Rightarrow> (m, logf (StartWarning nm err) rt)
            | Some (Inr k) \<Rightarrow>
                (case new_object k rt of (client, rt) \<Rightarrow>
                (case invoke (MCPClient_Initialize lib) (Some NilDereference) client rt of
                   (Some err, rt) \<Rightarrow> (m, closeAt client (logf (InitializeWarning nm err) rt))
                 | (None, rt) \<Rightarrow>
                     (case invoke (MCPClient_ListTools lib) (Inl NilDereference) client rt of
                        (Inl err, rt) \<Rightarrow> (m, closeAt client (logf (ListToolsWarning nm err) rt))
                      | (Inr ts, rt) \<Rightarrow>
                          (mapTools (m\<lparr>clients := (clients m)(nm \<mapsto> client)\<rparr>) client ts,
                           logf (LoadedTools (length ts) nm) rt))))))))"

text \<open>\<open>range config.MCPServers\<close>: a nil map has no entries.\<close>

definition rangeServers :: "MCPConfig \<Rightarrow> (string \<times> MCPServerConfig) list" where
  "rangeServers config = (case MCPServers config of None \<Rightarrow> [] | Some es \<Rightarrow> es)"

definition LoadFromConfig ::
  "stdlib \<Rightarrow> opsys \<Rightarrow> Manager \<Rightarrow> runtime \<Rightarrow> string \<Rightarrow> error option \<times> Manager \<times> runtime"
where
  "LoadFromConfig lib sys m rt configPath =
     (case LoadMCPConfig lib sys configPath of
        Inl err \<Rightarrow> (Some (LoadConfigFailed err), m, rt)
      | Inr config \<Rightarrow>
          (case foldl (loadServer lib sys) (m, rt) (rangeServers config) of
             (m', rt') \<Rightarrow> (None, m', rt')))"

definition ExecuteTool ::
  "stdlib \<Rightarrow> Manager \<Rightarrow> runtime \<Rightarrow> string \<Rightarrow> json \<Rightarrow> (error + string) \<times> runtime"
where
  "ExecuteTool lib m rt tool args =
     (case toolToClient m tool of
        None \<Rightarrow> (Inl (UnknownTool tool), rt)
      | Some client \<Rightarrow>
          invoke (\<lambda>k. MCPClient_CallTool lib k tool args) (Inl NilDereference) client rt)"

definition HasTool :: "Manager \<Rightarrow> string \<Rightarrow> bool" where
  "HasTool m tool \<longleftrightarrow> toolToClient m tool \<noteq> None"

section \<open>Notions the properties are stated with\<close>

text \<open>
  How the read loop sorts an inbound line. \<open>decoded\<close> is the object the line parses
  to, if it is not blank, begins with an opening brace and parses. A \<open>notification\<close>
  has no id, no result and no error. \<open>noise\<close> is a line the loop passes over whatever
  the awaited id is; \<open>matching\<close> is a response to the request with the given id.
\<close>

definition decoded :: "stdlib \<Rightarrow> string \<Rightarrow> JSONRPCResponse option" where
  "decoded lib raw =
     (let line = TrimSpace raw in
      if line = [] \<or> hd line \<noteq> CHR ''{'' then None else json_Unmarshal_Response lib line)"

definition notification :: "JSONRPCResponse \<Rightarrow> bool" where
  "notification resp \<longleftrightarrow> ID resp = 0 \<and> Result resp = None \<and> Error resp = None"

definition noise :: "stdlib \<Rightarrow> string \<Rightarrow> bool" where
  "noise lib raw \<longleftrightarrow> (case decoded lib raw of None \<Rightarrow> True | Some resp \<Rightarrow> notification resp)"

definition matching :: "stdlib \<Rightarrow> int64 \<Rightarrow> string \<Rightarrow> bool" where
  "matching lib id' raw \<longleftrightarrow>
     (case decoded lib raw of None \<Rightarrow> False | Some resp \<Rightarrow> \<not> notification resp \<and> ID resp = id')"

text \<open>The request a call marshals, and whether the coming write to the pipe succeeds.\<close>

definition requestOf :: "int64 \<Rightarrow> string \<Rightarrow> json option \<Rightarrow> JSONRPCRequest" where
  "requestOf id' method params =
     \<lparr>req_JSONRPC = ''2.0'', req_ID = id', Method = method, Params = params\<rparr>"

definition writable :: "Client \<Rightarrow> bool" where
  "writable c \<longleftrightarrow> \<not> stdin_closed c \<and> (case stdin_faults c of [] \<Rightarrow> True | f # fs \<Rightarrow> \<not> f)"

text \<open>
  Successive \<open>sendRequest\<close> calls on one connection. For each call: the identifier it
  issued (the value \<open>atomic.AddInt64\<close> returned, which is the counter after the call),
  what the call wrote to the subprocess's input (or posted), and what it returned.
\<close>

type_synonym sent = "int64 \<times> string list \<times> (error + JSONRPCResponse)"

fun sendRequests :: "stdlib \<Rightarrow> Client \<Rightarrow> (string \<times> json option) list \<Rightarrow> sent list \<times> Client" where
  "sendRequests lib c [] = ([], c)"
| "sendRequests lib c (call # calls) =
     (case sendRequest lib c (fst call) (snd call) of
        (r, c') \<Rightarrow>
          (case sendRequests lib c' calls of
             (outs, c'') \<Rightarrow>
               ((requestID c', drop (length (stdin_sent c)) (stdin_sent c'), r) # outs, c'')))"

type_synonym posted = "int64 \<times> (string \<times> string) list \<times> (error + JSONRPCResponse)"

fun HTTPClient_sendRequests ::
  "stdlib \<Rightarrow> HTTPClient \<Rightarrow> (string \<times> json option) list \<Rightarrow> posted list \<times> HTTPClient"
where
  "HTTPClient_sendRequests lib c [] = ([], c)"
| "HTTPClient_sendRequests lib c (call # calls) =
     (case HTTPClient_sendRequest lib c (fst call) (snd call) of
        (r, c') \<Rightarrow>
          (case HTTPClient_sendRequests lib c' calls of
             (outs, c'') \<Rightarrow>
               ((http_requestID c', drop (length (http_posts c)) (http_posts c'), r) # outs, c'')))"

text \<open>
  The request of a call carries the identifier \<open>i\<close>: the request with that
  identifier, the call's method and its parameters is what the call marshals. Where
  marshalling fails the call fails so and writes nothing; otherwise that marshalled
  request (and a line feed) is the one thing the call writes, unless the write fails.
  On the HTTP connection the marshalled request is the body of the one request posted,
  unless the HTTP request cannot be created.
\<close>

definition sent_with_id :: "stdlib \<Rightarrow> string \<times> json option \<Rightarrow> sent \<Rightarrow> bool" where
  "sent_with_id lib call out \<longleftrightarrow>
     (case out of (i, written, r) \<Rightarrow>
        (case json_Marshal lib (requestOf i (fst call) (snd call)) of
           None \<Rightarrow> written = [] \<and> r = Inl MarshalRequestFailed
         | Some data \<Rightarrow>
             written = [data @ [CHR 0x0A]] \<or> (written = [] \<and> r = Inl WriteRequestFailed)))"

definition posted_with_id :: "stdlib \<Rightarrow> string \<times> json option \<Rightarrow> posted \<Rightarrow> bool" where
  "posted_with_id lib call out \<longleftrightarrow>
     (case out of (i, posts, r) \<Rightarrow>
        (case json_Marshal lib (requestOf i (fst call) (snd call)) of
           None \<Rightarrow> posts = [] \<and> r = Inl MarshalRequestFailed
         | Some data \<Rightarrow>
             map snd posts = [data] \<or> (posts = [] \<and> r = Inl CreateHTTPRequestFailed)))"

text \<open>
  One configured server taken alone, through the stages \<open>LoadFromConfig\<close> drives it:
  construction (spawn or HTTP set-up), \<open>Initialize\<close>, \<open>ListTools\<close>. \<open>NotStarted\<close>: no
  connection was constructed. \<open>Failed k\<close>: a later stage failed and \<open>k\<close> is the
  connection after its \<open>Close\<close>. \<open>Ready k ts\<close>: every stage succeeded, \<open>k\<close> is the
  connection and \<open>ts\<close> the tools it listed.
\<close>

datatype startup = NotStarted | Failed conn | Ready conn "MCPTool list"

definition constructed :: "opsys \<Rightarrow> string \<Rightarrow> MCPServerConfig \<Rightarrow> conn option" where
  "constructed sys nm cfg =
     (if IsStdio cfg then
        (case NewClient sys nm cfg of Inl err \<Rightarrow> None | Inr c \<Rightarrow> Some (ProcessConn c))
      else if IsSSE cfg \<or> IsHTTP cfg then
        (case NewHTTPClient sys nm cfg of Inl err \<Rightarrow> None | Inr h \<Rightarrow> Some (HTTPConn h))
      else None)"

definition startServer :: "stdlib \<Rightarrow> opsys \<Rightarrow> string \<times> MCPServerConfig \<Rightarrow> startup" where
  "startServer lib sys entry =
     (case constructed sys (fst entry) (snd entry) of
        None \<Rightarrow> NotStarted
      | Some k \<Rightarrow>
          (case MCPClient_Initialize lib k of
             (Some err, k1) \<Rightarrow> Failed (MCPClient_Close k1)
           | (None, k1) \<Rightarrow>
               (case MCPClient_ListTools lib k1 of
                  (Inl err, k2) \<Rightarrow> Failed (MCPClient_Close k2)
                | (Inr ts, k2) \<Rightarrow> Ready k2 ts)))"

definition survives :: "stdlib \<Rightarrow> opsys \<Rightarrow> string \<times> MCPServerConfig \<Rightarrow> bool" where
  "survives lib sys entry \<longleftrightarrow>
     (case startServer lib sys entry of Ready k ts \<Rightarrow> True | Failed k \<Rightarrow> False | NotStarted \<Rightarrow> False)"

definition exposes :: "stdlib \<Rightarrow> opsys \<Rightarrow> string \<Rightarrow> string \<times> MCPServerConfig \<Rightarrow> bool" where
  "exposes lib sys tool entry \<longleftrightarrow>
     (case startServer lib sys entry of
        Ready k ts \<Rightarrow> tool \<in> Name ` set ts
      | Failed k \<Rightarrow> False
      | NotStarted \<Rightarrow> False)"

text \<open>
  A closed connection: the process client's pipe is closed and its process gone; an
  HTTP client owns nothing that \<open>Close\<close> could release.
\<close>

definition released :: "conn \<Rightarrow> bool" where
  "released k \<longleftrightarrow> (case k of ProcessConn c \<Rightarrow> stdin_closed c \<and> \<not> running c | HTTPConn h \<Rightarrow> True)"

text \<open>
  What holds of the manager \<open>m\<close> and the store \<open>H\<close> once \<open>LoadFromConfig\<close>, started
  on an empty manager and a store of \<open>n0\<close> objects, has gone through the entries
  \<open>es\<close>: each registered name belongs to an entry that became ready and points to
  that entry's connection; each ready entry is registered; each routed tool was listed
  by a registered ready entry; the connection of each failed entry is in the store and
  neither map points to it.
\<close>

definition loaded ::
  "stdlib \<Rightarrow> opsys \<Rightarrow> nat \<Rightarrow> (string \<times> MCPServerConfig) list \<Rightarrow> Manager \<Rightarrow> conn list \<Rightarrow> bool"
where
  "loaded lib sys n0 es m H \<longleftrightarrow>
     (\<forall>nm a. clients m nm = Some a \<longrightarrow>
        n0 \<le> a \<and> a < length H \<and>
        (\<exists>cfg ts. (nm, cfg) \<in> set es \<and> startServer lib sys (nm, cfg) = Ready (H ! a) ts)) \<and>
     (\<forall>e k ts. e \<in> set es \<and> startServer lib sys e = Ready k ts \<longrightarrow>
        (\<exists>a. clients m (fst e) = Some a \<and> a < length H \<and> H ! a = k)) \<and>
     (\<forall>t a. toolToClient m t = Some a \<longrightarrow>
        (\<exists>e k ts. e \<in> set es \<and> startServer lib sys e = Ready k ts \<and>
                  clients m (fst e) = Some a \<and> t \<in> Name ` set ts)) \<and>
     (\<forall>e k. e \<in> set es \<and> startServer lib sys e = Failed k \<longrightarrow>
        (\<exists>a < length H. H ! a = k \<and> (\<forall>nm. clients m nm \<noteq> Some a) \<and>
                         (\<forall>t. toolToClient m t \<noteq> Some a)))"

section \<open>Test doubles\<close>

text \<open>
  A concrete standard library and a concrete world for the examples: the decoders are
  tables from the texts used below to the values Go decodes them to.
\<close>

definition line_note :: string where
  \<open>line_note = ''{"method":"notifications/progress"}''\<close>

definition resp_note :: JSONRPCResponse where
  "resp_note = \<lparr>JSONRPC = [], ID = 0, Result = None, Error = None\<rparr>"

definition line_ok1 :: string where
  \<open>line_ok1 = ''{"id":1,"result":{}}''\<close>

definition resp_ok1 :: JSONRPCResponse where
  "resp_ok1 = \<lparr>JSONRPC = [], ID = 1, Result = Some ''{}'', Error = None\<rparr>"

definition line_err1 :: string where
  \<open>line_err1 = ''{"id":1,"error":{"code":-32601,"message":"no"}}''\<close>

definition resp_err1 :: JSONRPCResponse where
  "resp_err1 = \<lparr>JSONRPC = [], ID = 1, Result = None,
                 Error = Some \<lparr>Code = - 32601, Message = ''no''\<rparr>\<rparr>"

definition line_err7 :: string where
  \<open>line_err7 = ''{"id":7,"error":{"code":-32601,"message":"no"}}''\<close>

definition resp_err7 :: JSONRPCResponse where
  "resp_err7 = \<lparr>JSONRPC = [], ID = 7, Result = None,
                 Error = Some \<lparr>Code = - 32601, Message = ''no''\<rparr>\<rparr>"

definition line_ok7 :: string where
  \<open>line_ok7 = ''{"id":7,"result":{}}''\<close>

definition resp_ok7 :: JSONRPCResponse where
  "resp_ok7 = \<lparr>JSONRPC = [], ID = 7, Result = Some ''{}'', Error = None\<rparr>"

definition text_echo :: string where
  \<open>text_echo = ''{"tools":[{"name":"echo"}]}''\<close>

definition line_echo2 :: string where
  \<open>line_echo2 = ''{"id":2,"result":{"tools":[{"name":"echo"}]}}''\<close>

definition tool_echo :: MCPTool where
  "tool_echo = \<lparr>Name = ''echo'', Description = [], InputSchema = JNull\<rparr>"

definition resp_echo2 :: JSONRPCResponse where
  "resp_echo2 = \<lparr>JSONRPC = [], ID = 2, Result = Some text_echo, Error = None\<rparr>"

definition text_hi :: string where
  \<open>text_hi = ''{"content":[{"type":"text","text":"hi"}]}''\<close>

definition line_hi1 :: string where
  \<open>line_hi1 = ''{"id":1,"result":{"content":[{"type":"text","text":"hi"}]}}''\<close>

definition resp_hi1 :: JSONRPCResponse where
  "resp_hi1 = \<lparr>JSONRPC = [], ID = 1, Result = Some text_hi, Error = None\<rparr>"

definition text_config :: string where
  \<open>text_config = ''{"mcpServers":{"a":{"command":"srv"},"b":{"type":"http","url":"u"},"c":{"command":"bad"},"d":{"command":"mute"}}}''\<close>

definition cfg_a :: MCPServerConfig where
  "cfg_a = \<lparr>Command = ''srv'', Args = [], Env = [], cfg_Type = [], URL = [], cfg_Description = []\<rparr>"

definition cfg_b :: MCPServerConfig where
  "cfg_b = \<lparr>Command = [], Args = [], Env = [], cfg_Type = ''http'', URL = ''u'', cfg_Description = []\<rparr>"

definition cfg_c :: MCPServerConfig where
  "cfg_c = \<lparr>Command = ''bad'', Args = [], Env = [], cfg_Type = [], URL = [], cfg_Description = []\<rparr>"

definition cfg_d :: MCPServerConfig where
  "cfg_d = \<lparr>Command = ''mute'', Args = [], Env = [], cfg_Type = [], URL = [], cfg_Description = []\<rparr>"

definition demo_config :: MCPConfig where
  "demo_config = \<lparr>MCPServers = Some [(''a'', cfg_a), (''b'', cfg_b), (''c'', cfg_c), (''d'', cfg_d)]\<rparr>"

definition demo_lib :: stdlib where
  "demo_lib =
     \<lparr>json_Marshal = (\<lambda>req. Some (Method req)),
      json_Unmarshal_Response =
        map_of [(line_note, resp_note), (line_ok1, resp_ok1), (line_err1, resp_err1),
                (line_err7, resp_err7), (line_ok7, resp_ok7), (line_echo2, resp_echo2),
                (line_hi1, resp_hi1)],
      json_Unmarshal_ToolsList = map_of [(text_echo, \<lparr>Tools = [tool_echo]\<rparr>)],
      json_Unmarshal_ToolCall =
        map_of [(text_hi, \<lparr>Content = [\<lparr>Type = ''text'', Text = ''hi''\<rparr>], IsError = False\<rparr>)],
      json_Unmarshal_Config = map_of [(text_config, demo_config)],
      http_NewRequest_ok = (\<lambda>url. True),
      filepath_Join = (\<lambda>dir rest. dir @ rest)\<rparr>"

text \<open>
  Server \<open>a\<close> is a process that answers both requests (after a notification), server
  \<open>b\<close> an HTTP endpoint that answers both, server \<open>c\<close> a command that does not start,
  server \<open>d\<close> a process that starts and ends its output without a line.
\<close>

definition demo_sys :: opsys where
  "demo_sys =
     \<lparr>UserHomeDir = Some ''/home/u'',
      ReadFile = (\<lambda>p. if p = ''mcp.json'' then Contents text_config
                       else if p = ''bad.json'' then Contents ''{''
                       else NotExist),
      exec_Start = (\<lambda>nm cfg. if Command cfg = ''srv''
                               then Started [Line line_note, Line line_ok1, Line line_echo2] []
                               else if Command cfg = ''mute'' then Started [] []
                               else StartError),
      http_endpoint = (\<lambda>nm cfg. [Response 200 line_ok1 True, Response 200 line_echo2 True])\<rparr>"

text \<open>
  A marshaller that writes the identifier and the method of a request (and leaves its
  parameters out), and the library with it, for the examples that look at what a call
  writes.
\<close>

function decimal :: "nat \<Rightarrow> string" where
  "decimal n =
     (if n < 10 then [''0123456789'' ! n]
      else decimal (n div 10) @ [''0123456789'' ! (n mod 10)])"
  by pat_completeness auto
termination
  by (relation "measure (\<lambda>n. n)") auto

declare decimal.simps [simp del]

definition showInt :: "int \<Rightarrow> string" where
  "showInt i = (if i < 0 then ''-'' @ decimal (nat (- i)) else decimal (nat i))"

definition wire_text :: "JSONRPCRequest \<Rightarrow> string" where
  \<open>wire_text req =
     ''{"jsonrpc":"2.0","id":'' @ showInt (sint (req_ID req)) @ '',"method":"'' @ Method req @ ''"}''\<close>

definition wire_lib :: stdlib where
  "wire_lib = demo_lib\<lparr>json_Marshal := (\<lambda>req. Some (wire_text req))\<rparr>"

definition wire_initialize1 :: string where
  \<open>wire_initialize1 = ''{"jsonrpc":"2.0","id":1,"method":"initialize"}''\<close>

definition wire_list2 :: string where
  \<open>wire_list2 = ''{"jsonrpc":"2.0","id":2,"method":"tools/list"}''\<close>

definition wire_list3 :: string where
  \<open>wire_list3 = ''{"jsonrpc":"2.0","id":3,"method":"tools/list"}''\<close>

text \<open>The no-break space U+00A0 in UTF-8, which \<open>bytes.TrimSpace\<close> trims.\<close>

definition nbsp :: string where
  "nbsp = [CHR 0xC2, CHR 0xA0]"

definition demo_client :: Client where
  "demo_client =
     \<lparr>name = ''a'', requestID = 0, tools = [], stdin_sent = [], stdin_faults = [],
      stdin_closed = False, stdout = [], running = True\<rparr>"

definition demo_http :: HTTPClient where
  "demo_http =
     \<lparr>http_name = ''b'', baseURL = ''u'', http_requestID = 0, http_tools = [], isSSE = False,
      http_posts = [], http_replies = []\<rparr>"

definition rt0 :: runtime where
  "rt0 = \<lparr>heap = [], logged = []\<rparr>"

text \<open>A manager that routes the tool \<open>echo\<close> to the one connection of its store.\<close>

definition demo_manager :: Manager where
  "demo_manager = \<lparr>clients = [''a'' \<mapsto> 0], toolToClient = [''echo'' \<mapsto> 0]\<rparr>"

definition demo_rt :: runtime where
  "demo_rt = \<lparr>heap = [ProcessConn (demo_client\<lparr>stdout := [Line line_hi1]\<rparr>)], logged = []\<rparr>"

section \<open>The read loop\<close>

lemma hd_nth0: "xs \<noteq> [] \<Longrightarrow> xs ! 0 = hd xs"
  by (cases xs) auto

lemma scan_skip:
  assumes "\<not> matching lib id' raw" "attempt < maxAttempts"
  shows "scan lib id' attempt (Line raw # rest) = scan lib id' (attempt + 1) rest"
  using assms
  by (subst scan.simps)
     (auto simp: matching_def decoded_def notification_def Let_def hd_nth0 split: option.splits)

lemma scan_match:
  assumes "decoded lib raw = Some resp" "\<not> notification resp" "ID resp = id'" "attempt < maxAttempts"
  shows "scan lib id' attempt (Line raw # rest) =
           (case Error resp of Some e \<Rightarrow> Inl (RPCError (Code e) (Message e)) | None \<Rightarrow> Inr resp, rest)"
  using assms
  by (subst scan.simps)
     (auto simp: decoded_def notification_def Let_def hd_nth0 split: option.splits if_splits)

lemma scan_skip_prefix:
  assumes "\<forall>raw \<in> set pre. \<not> matching lib id' raw" "attempt + length pre \<le> maxAttempts"
  shows "scan lib id' attempt (map Line pre @ rest) = scan lib id' (attempt + length pre) rest"
  using assms
proof (induction pre arbitrary: attempt)
  case Nil
  then show ?case by simp
next
  case (Cons raw pre)
  then have "scan lib id' attempt (map Line (raw # pre) @ rest) = scan lib id' (attempt + 1) (map Line pre @ rest)"
    by (simp add: scan_skip)
  also have "\<dots> = scan lib id' (attempt + 1 + length pre) rest"
    using Cons by simp
  finally show ?case by simp
qed

lemma scan_exhausted: "scan lib id' maxAttempts out = (Inl (NoResponse maxAttempts), out)"
  by (subst scan.simps) simp

lemma scan_nil:
  "scan lib id' attempt [] =
     (if attempt < maxAttempts then (Inl ReadResponseFailed, []) else (Inl (NoResponse maxAttempts), []))"
  by (subst scan.simps) simp

lemma scan_read_error:
  "attempt < maxAttempts \<Longrightarrow> scan lib id' attempt (ReadError # rest) = (Inl ReadResponseFailed, rest)"
  by (subst scan.simps) simp

lemma scan_past_cap:
  "\<not> attempt < maxAttempts \<Longrightarrow> scan lib id' attempt out = (Inl (NoResponse maxAttempts), out)"
  by (subst scan.simps) simp

lemma matchingE:
  assumes "matching lib id' raw"
  obtains resp where "decoded lib raw = Some resp" "\<not> notification resp" "ID resp = id'"
  using assms by (auto simp: matching_def split: option.splits)

lemma scan_accepts_own_id:
  "scan lib id' attempt out = (Inr resp, rest) \<Longrightarrow> ID resp = id'"
proof (induction out arbitrary: attempt)
  case Nil
  then show ?case by (simp add: scan_nil split: if_splits)
next
  case (Cons ev out)
  show ?case
  proof (cases "attempt < maxAttempts")
    case False
    with Cons.prems show ?thesis by (simp add: scan_past_cap)
  next
    case True
    show ?thesis
    proof (cases ev)
      case ReadError
      with True Cons.prems show ?thesis by (simp add: scan_read_error)
    next
      case (Line raw)
      show ?thesis
      proof (cases "matching lib id' raw")
        case False
        with True Line Cons.prems have "scan lib id' (attempt + 1) out = (Inr resp, rest)"
          by (simp add: scan_skip)
        then show ?thesis by (rule Cons.IH)
      next
        case m: True
        then obtain r where r: "decoded lib raw = Some r" "\<not> notification r" "ID r = id'"
          by (rule matchingE)
        with True Line Cons.prems show ?thesis
          by (auto simp: scan_match split: option.splits)
      qed
    qed
  qed
qed

lemma scan_consumes:
  "scan lib id' attempt out = (r, rest) \<Longrightarrow>
     length rest \<le> length out \<and> length out \<le> length rest + (maxAttempts - attempt)"
proof (induction out arbitrary: attempt)
  case Nil
  then show ?case by (auto simp: scan_nil split: if_splits)
next
  case (Cons ev out)
  show ?case
  proof (cases "attempt < maxAttempts")
    case False
    with Cons.prems show ?thesis by (auto simp: scan_past_cap)
  next
    case True
    show ?thesis
    proof (cases ev)
      case ReadError
      with True Cons.prems show ?thesis by (auto simp: scan_read_error)
    next
      case (Line raw)
      show ?thesis
      proof (cases "matching lib id' raw")
        case False
        with True Line Cons.prems have "scan lib id' (attempt + 1) out = (r, rest)"
          by (simp add: scan_skip)
        from Cons.IH [OF this] True show ?thesis by auto
      next
        case m: True
        then obtain r' where r: "decoded lib raw = Some r'" "\<not> notification r'" "ID r' = id'"
          by (rule matchingE)
        with True Line Cons.prems show ?thesis
          by (auto simp: scan_match split: option.splits)
      qed
    qed
  qed
qed

section \<open>One request on a process connection\<close>

lemma stdin_Write_keeps:
  "stdin_Write c d = (ok, c') \<Longrightarrow>
     stdout c' = stdout c \<and> requestID c' = requestID c \<and> tools c' = tools c \<and> name c' = name c"
  by (auto simp: stdin_Write_def split: if_splits list.splits)

lemma stdin_Write_writable:
  "writable c \<Longrightarrow> fst (stdin_Write c d) = True"
  by (auto simp: stdin_Write_def writable_def split: list.splits)

lemma writable_requestID [simp]: "writable (c\<lparr>requestID := i\<rparr>) = writable c"
  by (simp add: writable_def)

lemma sendRequest_requestID:
  "requestID (snd (sendRequest lib c method params)) = requestID c + 1"
  by (auto simp: sendRequest_def Let_def split: option.splits prod.splits bool.splits
           dest!: stdin_Write_keeps)

lemma sendRequest_tools:
  "tools (snd (sendRequest lib c method params)) = tools c"
  by (auto simp: sendRequest_def Let_def split: option.splits prod.splits bool.splits
           dest!: stdin_Write_keeps)

lemma sendRequest_name:
  "name (snd (sendRequest lib c method params)) = name c"
  by (auto simp: sendRequest_def Let_def split: option.splits prod.splits bool.splits
           dest!: stdin_Write_keeps)

lemma sendRequest_scan:
  assumes "json_Marshal lib (requestOf (requestID c + 1) method params) = Some data"
      and "writable c"
  shows "fst (sendRequest lib c method params) = fst (scan lib (requestID c + 1) 0 (stdout c))"
    and "stdout (snd (sendRequest lib c method params)) = snd (scan lib (requestID c + 1) 0 (stdout c))"
proof -
  let ?c = "c\<lparr>requestID := requestID c + 1\<rparr>"
  obtain ok c' where w: "stdin_Write ?c (data @ [CHR 0x0A]) = (ok, c')"
    by (cases "stdin_Write ?c (data @ [CHR 0x0A])")
  from assms(2) have "fst (stdin_Write ?c (data @ [CHR 0x0A])) = True"
    by (intro stdin_Write_writable) simp
  with w have ok: "ok = True" by simp
  from stdin_Write_keeps [OF w] have out: "stdout c' = stdout c" by simp
  from assms(1) w ok out
  show "fst (sendRequest lib c method params) = fst (scan lib (requestID c + 1) 0 (stdout c))"
    and "stdout (snd (sendRequest lib c method params)) = snd (scan lib (requestID c + 1) 0 (stdout c))"
    by (auto simp: sendRequest_def requestOf_def Let_def split: prod.splits)
qed

lemma sendRequest_stdout:
  "length (stdout (snd (sendRequest lib c method params))) \<le> length (stdout c) \<and>
   length (stdout c) \<le> length (stdout (snd (sendRequest lib c method params))) + maxAttempts"
proof -
  let ?c = "c\<lparr>requestID := requestID c + 1\<rparr>"
  show ?thesis
  proof (cases "json_Marshal lib (requestOf (requestID c + 1) method params)")
    case None
    then show ?thesis by (simp add: sendRequest_def requestOf_def Let_def)
  next
    case (Some data)
    obtain ok c' where w: "stdin_Write ?c (data @ [CHR 0x0A]) = (ok, c')"
      by (cases "stdin_Write ?c (data @ [CHR 0x0A])")
    from stdin_Write_keeps [OF w] have out: "stdout c' = stdout c" by simp
    obtain r rest where sc: "scan lib (requestID c + 1) 0 (stdout c) = (r, rest)"
      by (cases "scan lib (requestID c + 1) 0 (stdout c)")
    from scan_consumes [OF sc] have "length rest \<le> length (stdout c)"
      "length (stdout c) \<le> length rest + maxAttempts" by simp_all
    with Some w out sc show ?thesis
      by (cases ok) (simp_all add: sendRequest_def requestOf_def Let_def)
  qed
qed

lemma sendRequest_accepts_own_id:
  assumes "fst (sendRequest lib c method params) = Inr resp"
  shows "ID resp = requestID c + 1"
proof -
  let ?c = "c\<lparr>requestID := requestID c + 1\<rparr>"
  from assms obtain data where m: "json_Marshal lib (requestOf (requestID c + 1) method params) = Some data"
    by (cases "json_Marshal lib (requestOf (requestID c + 1) method params)")
       (auto simp: sendRequest_def requestOf_def Let_def)
  obtain ok c' where w: "stdin_Write ?c (data @ [CHR 0x0A]) = (ok, c')"
    by (cases "stdin_Write ?c (data @ [CHR 0x0A])")
  from stdin_Write_keeps [OF w] have out: "stdout c' = stdout c" by simp
  obtain r rest where sc: "scan lib (requestID c + 1) 0 (stdout c) = (r, rest)"
    by (cases "scan lib (requestID c + 1) 0 (stdout c)")
  from assms m w out sc have "r = Inr resp"
    by (cases ok) (simp_all add: sendRequest_def requestOf_def Let_def)
  with sc show ?thesis by (auto dest: scan_accepts_own_id)
qed

section \<open>Request identifiers\<close>

lemma sint_of_nat_64:
  assumes "n < 2 ^ 63"
  shows "sint (word_of_nat n :: 64 word) = int n"
proof -
  have "(word_of_nat n :: 64 word) = word_of_int (int n)" by simp
  then have "sint (word_of_nat n :: 64 word) = (int n + 2 ^ 63) mod 2 ^ 64 - 2 ^ 63"
    by (simp only: int_word_sint) simp
  moreover from assms have "int n < 2 ^ 63"
    by (metis of_nat_less_iff of_nat_numeral of_nat_power)
  then have "(int n + 2 ^ 63) mod 2 ^ 64 = int n + 2 ^ 63" by simp
  ultimately show ?thesis by simp
qed

lemma upt_shift: "map (\<lambda>i. f (Suc i)) [0..<n] = map f [1..<Suc n]"
proof -
  have "map f [1..<Suc n] = map f (map Suc [0..<n])"
    by (simp only: map_Suc_upt) simp
  then show ?thesis by (simp add: comp_def)
qed

section \<open>One request on an HTTP connection\<close>

lemma httpClient_Do_keeps:
  "httpClient_Do c url data = (ev, c') \<Longrightarrow>
     http_requestID c' = http_requestID c \<and> http_tools c' = http_tools c \<and>
     http_name c' = http_name c"
  by (auto simp: httpClient_Do_def split: list.splits)

lemma HTTPClient_sendRequest_keeps:
  "http_requestID (snd (HTTPClient_sendRequest lib c method params)) = http_requestID c + 1 \<and>
   http_tools (snd (HTTPClient_sendRequest lib c method params)) = http_tools c \<and>
   http_name (snd (HTTPClient_sendRequest lib c method params)) = http_name c"
proof -
  let ?c = "c\<lparr>http_requestID := http_requestID c + 1\<rparr>"
  let ?url = "if isSSE c then baseURL c @ ''/message'' else baseURL c"
  show ?thesis
  proof (cases "json_Marshal lib (requestOf (http_requestID c + 1) method params)")
    case None
    then show ?thesis by (simp add: HTTPClient_sendRequest_def requestOf_def Let_def)
  next
    case (Some data)
    show ?thesis
    proof (cases "http_NewRequest_ok lib ?url")
      case False
      with Some show ?thesis
        by (simp add: HTTPClient_sendRequest_def requestOf_def Let_def cong: if_cong)
    next
      case True
      obtain ev c' where d: "httpClient_Do ?c ?url data = (ev, c')"
        by (cases "httpClient_Do ?c ?url data")
      from httpClient_Do_keeps [OF d]
      have k: "http_requestID c' = http_requestID c + 1" "http_tools c' = http_tools c"
        "http_name c' = http_name c" by simp_all
      have r: "snd (HTTPClient_sendRequest lib c method params) = c'"
      proof (cases ev)
        case TransportError
        with Some True d show ?thesis
          by (simp add: HTTPClient_sendRequest_def requestOf_def Let_def cong: if_cong)
      next
        case (Response status body complete)
        with Some True d show ?thesis
          by (simp add: HTTPClient_sendRequest_def requestOf_def Let_def split: option.splits
                cong: if_cong)
      qed
      with k show ?thesis by simp
    qed
  qed
qed

lemma HTTPClient_sendRequest_requestID:
  "http_requestID (snd (HTTPClient_sendRequest lib c method params)) = http_requestID c + 1"
  by (simp add: HTTPClient_sendRequest_keeps)

lemma HTTPClient_sendRequest_tools:
  "http_tools (snd (HTTPClient_sendRequest lib c method params)) = http_tools c"
  by (simp add: HTTPClient_sendRequest_keeps)

lemma HTTPClient_sendRequest_name:
  "http_name (snd (HTTPClient_sendRequest lib c method params)) = http_name c"
  by (simp add: HTTPClient_sendRequest_keeps)

lemma HTTPClient_sendRequest_body:
  assumes "json_Marshal lib (requestOf (http_requestID h + 1) method params) = Some data"
      and "http_NewRequest_ok lib (if isSSE h then baseURL h @ ''/message'' else baseURL h)"
      and "http_replies h = Response 200 body True # evs"
      and "json_Unmarshal_Response lib body = Some resp"
  shows "fst (HTTPClient_sendRequest lib h method params) =
           (case Error resp of Some e \<Rightarrow> Inl (RPCError (Code e) (Message e)) | None \<Rightarrow> Inr resp)"
  using assms
  by (auto simp: HTTPClient_sendRequest_def requestOf_def httpClient_Do_def Let_def
           split: option.splits)

section \<open>The cached tool list\<close>

lemma Client_ListTools_cache:
  "(case fst (Client_ListTools lib c) of
      Inl err \<Rightarrow> Client_Tools (snd (Client_ListTools lib c)) = Client_Tools c
    | Inr ts \<Rightarrow> Client_Tools (snd (Client_ListTools lib c)) = ts)"
proof -
  obtain r c' where s: "sendRequest lib c ''tools/list'' None = (r, c')"
    by (cases "sendRequest lib c ''tools/list'' None")
  with sendRequest_tools [of lib c "''tools/list''" None] have "tools c' = tools c" by simp
  with s show ?thesis
    by (auto simp: Client_ListTools_def Client_Tools_def split: sum.splits option.splits)
qed

lemma HTTPClient_ListTools_cache:
  "(case fst (HTTPClient_ListTools lib h) of
      Inl err \<Rightarrow> HTTPClient_Tools (snd (HTTPClient_ListTools lib h)) = HTTPClient_Tools h
    | Inr ts \<Rightarrow> HTTPClient_Tools (snd (HTTPClient_ListTools lib h)) = ts)"
proof -
  obtain r h' where s: "HTTPClient_sendRequest lib h ''tools/list'' None = (r, h')"
    by (cases "HTTPClient_sendRequest lib h ''tools/list'' None")
  with HTTPClient_sendRequest_tools [of lib h "''tools/list''" None]
  have "http_tools h' = http_tools h" by simp
  with s show ?thesis
    by (auto simp: HTTPClient_ListTools_def HTTPClient_Tools_def split: sum.splits option.splits)
qed

section \<open>Claims about the read loop\<close>

lemma noise_not_matching: "noise lib raw \<Longrightarrow> \<not> matching lib id' raw"
  by (auto simp: noise_def matching_def split: option.splits)

lemma sendRequest_after_skipped:
  assumes "json_Marshal lib (requestOf (requestID c + 1) method params) = Some data"
      and "writable c"
      and "stdout c = map Line pre @ Line raw # rest"
      and "\<forall>l \<in> set pre. \<not> matching lib (requestID c + 1) l"
      and "length pre < maxAttempts"
      and "decoded lib raw = Some resp"
      and "ID resp = requestID c + 1"
      and "\<not> notification resp"
  shows "fst (sendRequest lib c method params) =
           (case Error resp of Some e \<Rightarrow> Inl (RPCError (Code e) (Message e)) | None \<Rightarrow> Inr resp)"
    and "stdout (snd (sendRequest lib c method params)) = rest"
proof -
  let ?id = "requestID c + 1"
  have "scan lib ?id 0 (stdout c) = scan lib ?id (0 + length pre) (Line raw # rest)"
    unfolding assms(3) using assms(4,5) by (intro scan_skip_prefix) simp_all
  also have "\<dots> = (case Error resp of Some e \<Rightarrow> Inl (RPCError (Code e) (Message e)) | None \<Rightarrow> Inr resp, rest)"
    using assms(5,6,7,8) by (simp add: scan_match)
  finally have sc: "scan lib ?id 0 (stdout c) =
      (case Error resp of Some e \<Rightarrow> Inl (RPCError (Code e) (Message e)) | None \<Rightarrow> Inr resp, rest)" .
  from sendRequest_scan [OF assms(1,2)] sc
  show "fst (sendRequest lib c method params) =
           (case Error resp of Some e \<Rightarrow> Inl (RPCError (Code e) (Message e)) | None \<Rightarrow> Inr resp)"
    and "stdout (snd (sendRequest lib c method params)) = rest"
    by simp_all
qed

text \<open>
  C7. During the response scan of a process connection, a line that is blank, does not
  begin with an opening brace, does not parse, or parses as a notification (no id, no
  result, no error) is passed over without error: when fewer than \<open>maxAttempts\<close> such
  lines come before the response that carries the issued id, that response is the
  call's result, and the stream is left just after it.
\<close>

theorem noise_leaves_the_response:
  assumes "json_Marshal lib (requestOf (requestID c + 1) method params) = Some data"
      and "writable c"
      and "stdout c = map Line pre @ Line raw # rest"
      and "\<forall>l \<in> set pre. noise lib l"
      and "length pre < maxAttempts"
      and "decoded lib raw = Some resp"
      and "ID resp = requestID c + 1"
      and "\<not> notification resp"
      and "Error resp = None"
  shows "fst (sendRequest lib c method params) = Inr resp \<and>
         stdout (snd (sendRequest lib c method params)) = rest"
proof -
  from assms(4) have "\<forall>l \<in> set pre. \<not> matching lib (requestID c + 1) l"
    by (simp add: noise_not_matching)
  from sendRequest_after_skipped [OF assms(1,2,3) this assms(5,6,7,8)] assms(9)
  show ?thesis by simp
qed

lemmas demo_lines =
  line_note_def line_ok1_def line_err1_def line_err7_def line_ok7_def line_echo2_def line_hi1_def

lemma demo_Unmarshal_Response:
  "json_Unmarshal_Response demo_lib line_note = Some resp_note"
  "json_Unmarshal_Response demo_lib line_ok1 = Some resp_ok1"
  "json_Unmarshal_Response demo_lib line_err1 = Some resp_err1"
  "json_Unmarshal_Response demo_lib line_err7 = Some resp_err7"
  "json_Unmarshal_Response demo_lib line_ok7 = Some resp_ok7"
  "json_Unmarshal_Response demo_lib line_echo2 = Some resp_echo2"
  "json_Unmarshal_Response demo_lib line_hi1 = Some resp_hi1"
  "json_Unmarshal_Response demo_lib ''{oops'' = None"
  by (simp_all add: demo_lib_def demo_lines)

lemma demo_TrimSpace:
  "TrimSpace ''\<newline>'' = []"
  "TrimSpace ''ready\<newline>'' = ''ready''"
  "TrimSpace ''{oops'' = ''{oops''"
  "TrimSpace line_note = line_note"
  "TrimSpace line_ok1 = line_ok1"
  "TrimSpace (line_ok1 @ ''\<newline>'') = line_ok1"
  "TrimSpace (nbsp @ ''\<newline>'') = []"
  "TrimSpace (nbsp @ line_ok1 @ ''\<newline>'') = line_ok1"
  "TrimSpace (nbsp @ line_err1) = line_err1"
  "TrimSpace (nbsp @ line_ok7) = line_ok7"
  "TrimSpace line_err1 = line_err1"
  "TrimSpace line_err7 = line_err7"
  "TrimSpace line_ok7 = line_ok7"
  "TrimSpace line_echo2 = line_echo2"
  "TrimSpace line_hi1 = line_hi1"
  by (simp_all add: TrimSpace_def asciiSpace_def space2_def space3_def nbsp_def demo_lines)

lemma demo_hd:
  "line_note \<noteq> [] \<and> hd line_note = CHR ''{''"
  "line_ok1 \<noteq> [] \<and> hd line_ok1 = CHR ''{''"
  "line_err1 \<noteq> [] \<and> hd line_err1 = CHR ''{''"
  "line_err7 \<noteq> [] \<and> hd line_err7 = CHR ''{''"
  "line_ok7 \<noteq> [] \<and> hd line_ok7 = CHR ''{''"
  "line_echo2 \<noteq> [] \<and> hd line_echo2 = CHR ''{''"
  "line_hi1 \<noteq> [] \<and> hd line_hi1 = CHR ''{''"
  by (simp_all add: demo_lines)

lemma demo_decoded:
  "decoded demo_lib ''\<newline>'' = None"
  "decoded demo_lib ''ready\<newline>'' = None"
  "decoded demo_lib ''{oops'' = None"
  "decoded demo_lib line_note = Some resp_note"
  "decoded demo_lib line_ok1 = Some resp_ok1"
  "decoded demo_lib (line_ok1 @ ''\<newline>'') = Some resp_ok1"
  "decoded demo_lib (nbsp @ ''\<newline>'') = None"
  "decoded demo_lib (nbsp @ line_ok1 @ ''\<newline>'') = Some resp_ok1"
  "decoded demo_lib (nbsp @ line_err1) = Some resp_err1"
  "decoded demo_lib (nbsp @ line_ok7) = Some resp_ok7"
  "decoded demo_lib line_err1 = Some resp_err1"
  "decoded demo_lib line_err7 = Some resp_err7"
  "decoded demo_lib line_ok7 = Some resp_ok7"
  "decoded demo_lib line_echo2 = Some resp_echo2"
  "decoded demo_lib line_hi1 = Some resp_hi1"
  by (simp_all add: decoded_def demo_TrimSpace demo_hd demo_Unmarshal_Response)

lemma demo_notification:
  "notification resp_note"
  "\<not> notification resp_ok1"
  "\<not> notification resp_err1"
  "\<not> notification resp_err7"
  "\<not> notification resp_ok7"
  "\<not> notification resp_echo2"
  "\<not> notification resp_hi1"
  by (simp_all add: notification_def resp_note_def resp_ok1_def resp_err1_def resp_err7_def
        resp_ok7_def resp_echo2_def resp_hi1_def)

lemma demo_marshal: "json_Marshal demo_lib (requestOf i method params) = Some method"
  by (simp add: demo_lib_def requestOf_def)

lemma demo_client_facts:
  "writable (demo_client\<lparr>stdout := out\<rparr>)"
  "requestID (demo_client\<lparr>stdout := out\<rparr>) = 0"
  "stdout (demo_client\<lparr>stdout := out\<rparr>) = out"
  by (simp_all add: demo_client_def writable_def)

theorem noise_leaves_the_response_witness:
  "fst (sendRequest demo_lib
          (demo_client\<lparr>stdout := map Line [''\<newline>'', nbsp @ ''\<newline>'', ''ready\<newline>'', ''{oops'', line_note]
                                   @ Line (nbsp @ line_ok1 @ ''\<newline>'') # [Line line_echo2]\<rparr>)
          ''initialize'' None) = Inr resp_ok1 \<and>
   stdout (snd (sendRequest demo_lib
          (demo_client\<lparr>stdout := map Line [''\<newline>'', nbsp @ ''\<newline>'', ''ready\<newline>'', ''{oops'', line_note]
                                   @ Line (nbsp @ line_ok1 @ ''\<newline>'') # [Line line_echo2]\<rparr>)
          ''initialize'' None)) = [Line line_echo2]"
proof (rule noise_leaves_the_response)
  let ?pre = "[''\<newline>'', nbsp @ ''\<newline>'', ''ready\<newline>'', ''{oops'', line_note]"
  let ?c = "demo_client\<lparr>stdout := map Line ?pre @ Line (nbsp @ line_ok1 @ ''\<newline>'') # [Line line_echo2]\<rparr>"
  show "json_Marshal demo_lib (requestOf (requestID ?c + 1) ''initialize'' None) = Some ''initialize''"
    by (rule demo_marshal)
  show "writable ?c" by (rule demo_client_facts)
  show "stdout ?c = map Line ?pre @ Line (nbsp @ line_ok1 @ ''\<newline>'') # [Line line_echo2]"
    by (rule demo_client_facts)
  show "\<forall>l \<in> set ?pre. noise demo_lib l"
    by (simp add: noise_def demo_decoded demo_notification)
  show "length ?pre < maxAttempts" by (simp add: maxAttempts_def)
  show "decoded demo_lib (nbsp @ line_ok1 @ ''\<newline>'') = Some resp_ok1" by (rule demo_decoded)
  show "ID resp_ok1 = requestID ?c + 1" by (simp add: resp_ok1_def demo_client_def)
  show "\<not> notification resp_ok1" by (rule demo_notification)
  show "Error resp_ok1 = None" by (simp add: resp_ok1_def)
qed

text \<open>
  C8. A call on a process connection reads at most 50 inbound lines: the stream is
  shorter by at most 50 after the call (the loop is a total function, so it stops).
  When the first 50 reads give lines none of which is a response carrying the issued
  id, the call fails with the error that names the 50 attempts, and the 51st line is
  not read.
\<close>

theorem scan_stops_at_the_cap:
  "length (stdout (snd (sendRequest lib c method params))) \<le> length (stdout c) \<and>
   length (stdout c) \<le> length (stdout (snd (sendRequest lib c method params))) + 50 \<and>
   (json_Marshal lib (requestOf (requestID c + 1) method params) = Some data \<and>
    writable c \<and>
    stdout c = map Line pre @ rest \<and> length pre = 50 \<and>
    (\<forall>l \<in> set pre. \<not> matching lib (requestID c + 1) l) \<longrightarrow>
      fst (sendRequest lib c method params) = Inl (NoResponse 50) \<and>
      stdout (snd (sendRequest lib c method params)) = rest)"
proof (intro conjI impI)
  from sendRequest_stdout [of lib c "method" "params"]
  show "length (stdout (snd (sendRequest lib c method params))) \<le> length (stdout c)"
    and "length (stdout c) \<le> length (stdout (snd (sendRequest lib c method params))) + 50"
    by (simp_all add: maxAttempts_def)
next
  assume a: "json_Marshal lib (requestOf (requestID c + 1) method params) = Some data \<and>
    writable c \<and>
    stdout c = map Line pre @ rest \<and> length pre = 50 \<and>
    (\<forall>l \<in> set pre. \<not> matching lib (requestID c + 1) l)"
  let ?id = "requestID c + 1"
  from a scan_skip_prefix [of pre lib ?id 0 rest]
  have "scan lib ?id 0 (stdout c) = scan lib ?id (0 + length pre) rest"
    by (simp add: maxAttempts_def)
  also from a have "\<dots> = (Inl (NoResponse 50), rest)"
    using scan_exhausted [of lib ?id rest] by (simp add: maxAttempts_def)
  finally have sc: "scan lib ?id 0 (stdout c) = (Inl (NoResponse 50), rest)" .
  from a have m: "json_Marshal lib (requestOf (requestID c + 1) method params) = Some data"
    and w: "writable c" by simp_all
  from sendRequest_scan [OF m w] sc
  show "fst (sendRequest lib c method params) = Inl (NoResponse 50)"
    and "stdout (snd (sendRequest lib c method params)) = rest"
    by simp_all
qed

lemma demo_matching:
  "\<not> matching demo_lib 1 line_note"
  "\<not> matching demo_lib 1 line_err7"
  "\<not> matching demo_lib 1 line_ok7"
  "\<not> matching demo_lib 1 (nbsp @ line_ok7)"
  "\<not> matching demo_lib 1 line_echo2"
  by (simp_all add: matching_def demo_decoded demo_notification resp_err7_def resp_ok7_def
        resp_echo2_def)

theorem scan_stops_at_the_cap_witness:
  "fst (sendRequest demo_lib
          (demo_client\<lparr>stdout := map Line (replicate 50 (nbsp @ line_ok7)) @ [Line line_ok1]\<rparr>)
          ''initialize'' None) = Inl (NoResponse 50) \<and>
   stdout (snd (sendRequest demo_lib
          (demo_client\<lparr>stdout := map Line (replicate 50 (nbsp @ line_ok7)) @ [Line line_ok1]\<rparr>)
          ''initialize'' None)) = [Line line_ok1]"
proof -
  let ?c = "demo_client\<lparr>stdout := map Line (replicate 50 (nbsp @ line_ok7)) @ [Line line_ok1]\<rparr>"
  have "json_Marshal demo_lib (requestOf (requestID ?c + 1) ''initialize'' None) = Some ''initialize'' \<and>
    writable ?c \<and>
    stdout ?c = map Line (replicate 50 (nbsp @ line_ok7)) @ [Line line_ok1] \<and>
    length (replicate 50 (nbsp @ line_ok7)) = 50 \<and>
    (\<forall>l \<in> set (replicate 50 (nbsp @ line_ok7)). \<not> matching demo_lib (requestID ?c + 1) l)"
    by (simp add: demo_marshal demo_client_facts demo_matching)
  with scan_stops_at_the_cap [of demo_lib ?c "''initialize''" None "''initialize''"
         "replicate 50 (nbsp @ line_ok7)" "[Line line_ok1]"]
  show ?thesis by blast
qed

section \<open>Claims about errors and identifiers\<close>

text \<open>
  C4 as stated fails: an inbound object with an \<open>error\<close> member whose id is not the
  issued one is passed over. Here the first line is an error object with id 7, the call
  was issued id 1, and the call succeeds with the response that follows.
\<close>

theorem error_with_other_id_is_skipped:
  "decoded demo_lib line_err7 = Some resp_err7 \<and>
   Error resp_err7 = Some \<lparr>Code = - 32601, Message = ''no''\<rparr> \<and>
   fst (sendRequest demo_lib (demo_client\<lparr>stdout := [Line line_err7, Line line_ok1]\<rparr>)
          ''initialize'' None) = Inr resp_ok1"
proof -
  let ?c = "demo_client\<lparr>stdout := [Line line_err7, Line line_ok1]\<rparr>"
  have "fst (sendRequest demo_lib ?c ''initialize'' None) =
          (case Error resp_ok1 of Some e \<Rightarrow> Inl (RPCError (Code e) (Message e)) | None \<Rightarrow> Inr resp_ok1)"
  proof (rule sendRequest_after_skipped(1) [where pre = "[line_err7]" and raw = line_ok1 and rest = "[]"
          and data = "''initialize''"])
    show "ID resp_ok1 = requestID ?c + 1" by (simp add: demo_client_facts resp_ok1_def)
  qed (simp_all add: demo_marshal demo_client_facts demo_matching demo_decoded demo_notification
          maxAttempts_def)
  then show ?thesis by (simp add: demo_decoded resp_ok1_def resp_err7_def)
qed

text \<open>
  C4, amended. On a process connection, an inbound line that parses as an object
  carrying an \<open>error\<close> member and the id issued for the request, read within the
  attempt cap after lines that are no response to that id, makes the call fail with
  that error's code and message. An object with another id, with or without an
  \<open>error\<close> member, is no response to that id: it is among the lines passed over.
\<close>

theorem error_for_the_issued_id_surfaces:
  assumes "json_Marshal lib (requestOf (requestID c + 1) method params) = Some data"
      and "writable c"
      and "stdout c = map Line pre @ Line raw # rest"
      and "\<forall>l \<in> set pre. \<not> matching lib (requestID c + 1) l"
      and "length pre < maxAttempts"
      and "decoded lib raw = Some resp"
      and "ID resp = requestID c + 1"
      and "Error resp = Some e"
  shows "fst (sendRequest lib c method params) = Inl (RPCError (Code e) (Message e)) \<and>
         (\<forall>raw' resp'. decoded lib raw' = Some resp' \<and> ID resp' \<noteq> requestID c + 1 \<longrightarrow>
            \<not> matching lib (requestID c + 1) raw')"
proof -
  from assms(8) have "\<not> notification resp" by (simp add: notification_def)
  from sendRequest_after_skipped(1) [OF assms(1,2,3,4,5,6,7) this] assms(8)
  have "fst (sendRequest lib c method params) = Inl (RPCError (Code e) (Message e))" by simp
  then show ?thesis by (simp add: matching_def)
qed

theorem error_for_the_issued_id_surfaces_witness:
  "fst (sendRequest demo_lib (demo_client\<lparr>stdout := map Line [line_note, line_err7] @ Line (nbsp @ line_err1) # []\<rparr>)
          ''initialize'' None) = Inl (RPCError (- 32601) ''no'')"
proof -
  let ?c = "demo_client\<lparr>stdout := map Line [line_note, line_err7] @ Line (nbsp @ line_err1) # []\<rparr>"
  have "fst (sendRequest demo_lib ?c ''initialize'' None) =
          Inl (RPCError (Code \<lparr>Code = - 32601, Message = ''no''\<rparr>) (Message \<lparr>Code = - 32601, Message = ''no''\<rparr>))"
  proof (rule error_for_the_issued_id_surfaces [where data = "''initialize''" and resp = resp_err1
          and pre = "[line_note, line_err7]" and raw = "nbsp @ line_err1" and rest = "[]", THEN conjunct1])
    show "ID resp_err1 = requestID ?c + 1" by (simp add: demo_client_facts resp_err1_def)
    show "Error resp_err1 = Some \<lparr>Code = - 32601, Message = ''no''\<rparr>" by (simp add: resp_err1_def)
  qed (simp_all add: demo_marshal demo_client_facts demo_matching demo_decoded maxAttempts_def)
  then show ?thesis by simp
qed

text \<open>
  C5 as stated fails on the HTTP connection, which compares no identifier: the call is
  issued id 1, the body of the reply carries id 7, and that object is returned as the
  call's response.
\<close>

theorem http_accepts_any_id:
  "http_requestID (snd (HTTPClient_sendRequest demo_lib
       (demo_http\<lparr>http_replies := [Response 200 line_ok7 True]\<rparr>) ''initialize'' None)) = 1 \<and>
   fst (HTTPClient_sendRequest demo_lib
       (demo_http\<lparr>http_replies := [Response 200 line_ok7 True]\<rparr>) ''initialize'' None) = Inr resp_ok7 \<and>
   ID resp_ok7 = 7"
proof -
  let ?h = "demo_http\<lparr>http_replies := [Response 200 line_ok7 True]\<rparr>"
  have "fst (HTTPClient_sendRequest demo_lib ?h ''initialize'' None) =
          (case Error resp_ok7 of Some e \<Rightarrow> Inl (RPCError (Code e) (Message e)) | None \<Rightarrow> Inr resp_ok7)"
    by (rule HTTPClient_sendRequest_body [where data = "''initialize''" and body = line_ok7 and evs = "[]"])
       (simp_all add: demo_marshal demo_Unmarshal_Response, simp_all add: demo_lib_def demo_http_def)
  then show ?thesis
    by (simp add: HTTPClient_sendRequest_requestID resp_ok7_def demo_http_def)
qed

text \<open>
  C5, amended. On a process connection the object accepted as a call's response carries
  the id issued for that call: a response with another id is never the call's result.
  On an HTTP connection the object decoded from the body of the reply with status 200
  is the call's response when it has no \<open>error\<close> member, whatever id it carries.
\<close>

theorem accepted_response_id:
  "(\<forall>resp. fst (sendRequest lib c method params) = Inr resp \<longrightarrow> ID resp = requestID c + 1) \<and>
   (json_Marshal lib (requestOf (http_requestID h + 1) method params) = Some data \<and>
    http_NewRequest_ok lib (if isSSE h then baseURL h @ ''/message'' else baseURL h) \<and>
    http_replies h = Response 200 body True # evs \<and>
    json_Unmarshal_Response lib body = Some resp' \<and> Error resp' = None \<longrightarrow>
      fst (HTTPClient_sendRequest lib h method params) = Inr resp')"
proof (intro conjI allI impI)
  fix resp
  assume "fst (sendRequest lib c method params) = Inr resp"
  then show "ID resp = requestID c + 1" by (rule sendRequest_accepts_own_id)
next
  assume a: "json_Marshal lib (requestOf (http_requestID h + 1) method params) = Some data \<and>
    http_NewRequest_ok lib (if isSSE h then baseURL h @ ''/message'' else baseURL h) \<and>
    http_replies h = Response 200 body True # evs \<and>
    json_Unmarshal_Response lib body = Some resp' \<and> Error resp' = None"
  then have "fst (HTTPClient_sendRequest lib h method params) =
          (case Error resp' of Some e \<Rightarrow> Inl (RPCError (Code e) (Message e)) | None \<Rightarrow> Inr resp')"
    by (intro HTTPClient_sendRequest_body [where data = data and body = body and evs = evs]) simp_all
  with a show "fst (HTTPClient_sendRequest lib h method params) = Inr resp'" by simp
qed

theorem accepted_response_id_witness:
  "ID resp_ok1 = requestID (demo_client\<lparr>stdout := [Line line_ok7, Line line_ok1]\<rparr>) + 1 \<and>
   fst (HTTPClient_sendRequest demo_lib (demo_http\<lparr>http_replies := [Response 200 line_ok7 True]\<rparr>)
          ''initialize'' None) = Inr resp_ok7"
proof -
  let ?c = "demo_client\<lparr>stdout := [Line line_ok7, Line line_ok1]\<rparr>"
  let ?h = "demo_http\<lparr>http_replies := [Response 200 line_ok7 True]\<rparr>"
  have "fst (sendRequest demo_lib ?c ''initialize'' None) =
          (case Error resp_ok1 of Some e \<Rightarrow> Inl (RPCError (Code e) (Message e)) | None \<Rightarrow> Inr resp_ok1)"
  proof (rule sendRequest_after_skipped(1) [where pre = "[line_ok7]" and raw = line_ok1 and rest = "[]"
          and data = "''initialize''"])
    show "ID resp_ok1 = requestID ?c + 1" by (simp add: demo_client_facts resp_ok1_def)
  qed (simp_all add: demo_marshal demo_client_facts demo_matching demo_decoded demo_notification
          maxAttempts_def)
  then have 1: "fst (sendRequest demo_lib ?c ''initialize'' None) = Inr resp_ok1"
    by (simp add: resp_ok1_def)
  have 2: "json_Marshal demo_lib (requestOf (http_requestID ?h + 1) ''initialize'' None) = Some ''initialize'' \<and>
    http_NewRequest_ok demo_lib (if isSSE ?h then baseURL ?h @ ''/message'' else baseURL ?h) \<and>
    http_replies ?h = Response 200 line_ok7 True # [] \<and>
    json_Unmarshal_Response demo_lib line_ok7 = Some resp_ok7 \<and> Error resp_ok7 = None"
    by (simp add: demo_marshal demo_Unmarshal_Response, simp add: demo_lib_def demo_http_def resp_ok7_def)
  from accepted_response_id [of demo_lib ?c "''initialize''" None ?h "''initialize''" line_ok7 "[]" resp_ok7]
    1 2
  show ?thesis by blast
qed

lemma stdin_Write_sent:
  "stdin_Write c d = (ok, c') \<Longrightarrow>
     stdin_sent c' = (if ok then stdin_sent c @ [d] else stdin_sent c)"
  by (auto simp: stdin_Write_def split: if_splits list.splits)

lemma sendRequest_sent:
  assumes "sendRequest lib c method params = (r, c')"
  shows "sent_with_id lib (method, params)
           (requestID c', drop (length (stdin_sent c)) (stdin_sent c'), r)"
proof -
  let ?c = "c\<lparr>requestID := requestID c + 1\<rparr>"
  from sendRequest_requestID [of lib c "method" "params"] assms
  have i: "requestID c' = requestID c + 1" by simp
  show ?thesis
  proof (cases "json_Marshal lib (requestOf (requestID c + 1) method params)")
    case None
    with assms have "r = Inl MarshalRequestFailed" "c' = ?c"
      by (simp_all add: sendRequest_def requestOf_def Let_def)
    with None i show ?thesis by (simp add: sent_with_id_def)
  next
    case (Some data)
    obtain ok c1 where w: "stdin_Write ?c (data @ [CHR 0x0A]) = (ok, c1)"
      by (cases "stdin_Write ?c (data @ [CHR 0x0A])")
    from stdin_Write_sent [OF w]
    have s1: "stdin_sent c1 = (if ok then stdin_sent c @ [data @ [CHR 0x0A]] else stdin_sent c)"
      by simp
    show ?thesis
    proof (cases ok)
      case False
      with assms Some w have "r = Inl WriteRequestFailed" "c' = c1"
        by (simp_all add: sendRequest_def requestOf_def Let_def)
      with Some i s1 False show ?thesis by (simp add: sent_with_id_def)
    next
      case True
      with assms Some w have "stdin_sent c' = stdin_sent c1"
        by (auto simp: sendRequest_def requestOf_def Let_def split: prod.splits)
      with Some i s1 True show ?thesis by (simp add: sent_with_id_def)
    qed
  qed
qed

lemma sendRequests_sent:
  "list_all2 (sent_with_id lib) calls (fst (sendRequests lib c calls))"
proof (induction calls arbitrary: c)
  case Nil
  then show ?case by simp
next
  case (Cons call calls)
  obtain r c' where s: "sendRequest lib c (fst call) (snd call) = (r, c')"
    by (cases "sendRequest lib c (fst call) (snd call)")
  from sendRequest_sent [OF s]
  have "sent_with_id lib call (requestID c', drop (length (stdin_sent c)) (stdin_sent c'), r)"
    by simp
  with Cons.IH [of c'] s show ?case
    by (auto split: prod.splits)
qed

lemma sendRequests_ids:
  "map fst (fst (sendRequests lib c calls)) =
     map (\<lambda>i. requestID c + word_of_nat (Suc i)) [0..<length calls]"
proof (induction calls arbitrary: c)
  case Nil
  then show ?case by simp
next
  case (Cons call calls)
  obtain r c' where s: "sendRequest lib c (fst call) (snd call) = (r, c')"
    by (cases "sendRequest lib c (fst call) (snd call)")
  with sendRequest_requestID [of lib c "fst call" "snd call"]
  have c': "requestID c' = requestID c + 1" by simp
  have "map fst (fst (sendRequests lib c (call # calls))) =
          requestID c' # map fst (fst (sendRequests lib c' calls))"
    using s by (simp split: prod.splits)
  also have "\<dots> = requestID c' # map (\<lambda>i. requestID c' + word_of_nat (Suc i)) [0..<length calls]"
    by (simp only: Cons.IH)
  also have "\<dots> = map (\<lambda>i. requestID c + word_of_nat (Suc i)) (0 # map Suc [0..<length calls])"
    by (simp add: c' comp_def add.assoc)
  also have "0 # map Suc [0..<length calls] = [0..<length (call # calls)]"
    by (simp add: upt_conv_Cons map_Suc_upt del: upt_Suc)
  finally show ?case .
qed

lemma httpClient_Do_posts:
  "httpClient_Do c url data = (ev, c') \<Longrightarrow> http_posts c' = http_posts c @ [(url, data)]"
  by (auto simp: httpClient_Do_def split: list.splits)

lemma HTTPClient_sendRequest_posted:
  assumes "HTTPClient_sendRequest lib c method params = (r, c')"
  shows "posted_with_id lib (method, params)
           (http_requestID c', drop (length (http_posts c)) (http_posts c'), r)"
proof -
  let ?c = "c\<lparr>http_requestID := http_requestID c + 1\<rparr>"
  let ?url = "if isSSE c then baseURL c @ ''/message'' else baseURL c"
  from HTTPClient_sendRequest_requestID [of lib c "method" "params"] assms
  have i: "http_requestID c' = http_requestID c + 1" by simp
  show ?thesis
  proof (cases "json_Marshal lib (requestOf (http_requestID c + 1) method params)")
    case None
    with assms have "r = Inl MarshalRequestFailed" "c' = ?c"
      by (simp_all add: HTTPClient_sendRequest_def requestOf_def Let_def)
    with None i show ?thesis by (simp add: posted_with_id_def)
  next
    case (Some data)
    show ?thesis
    proof (cases "http_NewRequest_ok lib ?url")
      case False
      with assms Some have "r = Inl CreateHTTPRequestFailed" "c' = ?c"
        by (simp_all add: HTTPClient_sendRequest_def requestOf_def Let_def cong: if_cong)
      with Some i show ?thesis by (simp add: posted_with_id_def)
    next
      case True
      obtain ev c1 where d: "httpClient_Do ?c ?url data = (ev, c1)"
        by (cases "httpClient_Do ?c ?url data")
      from httpClient_Do_posts [OF d] have p: "http_posts c1 = http_posts c @ [(?url, data)]"
        by simp
      have "c' = c1"
      proof (cases ev)
        case TransportError
        with assms Some True d show ?thesis
          by (simp add: HTTPClient_sendRequest_def requestOf_def Let_def cong: if_cong)
      next
        case (Response status body complete)
        with assms Some True d show ?thesis
          by (simp add: HTTPClient_sendRequest_def requestOf_def Let_def split: option.splits if_splits
                cong: if_cong)
      qed
      with Some i p show ?thesis by (simp add: posted_with_id_def)
    qed
  qed
qed

lemma HTTPClient_sendRequests_posted:
  "list_all2 (posted_with_id lib) calls (fst (HTTPClient_sendRequests lib c calls))"
proof (induction calls arbitrary: c)
  case Nil
  then show ?case by simp
next
  case (Cons call calls)
  obtain r c' where s: "HTTPClient_sendRequest lib c (fst call) (snd call) = (r, c')"
    by (cases "HTTPClient_sendRequest lib c (fst call) (snd call)")
  from HTTPClient_sendRequest_posted [OF s]
  have "posted_with_id lib call
          (http_requestID c', drop (length (http_posts c)) (http_posts c'), r)"
    by simp
  with Cons.IH [of c'] s show ?case
    by (auto split: prod.splits)
qed

lemma HTTPClient_sendRequests_ids:
  "map fst (fst (HTTPClient_sendRequests lib c calls)) =
     map (\<lambda>i. http_requestID c + word_of_nat (Suc i)) [0..<length calls]"
proof (induction calls arbitrary: c)
  case Nil
  then show ?case by simp
next
  case (Cons call calls)
  obtain r c' where s: "HTTPClient_sendRequest lib c (fst call) (snd call) = (r, c')"
    by (cases "HTTPClient_sendRequest lib c (fst call) (snd call)")
  with HTTPClient_sendRequest_requestID [of lib c "fst call" "snd call"]
  have c': "http_requestID c' = http_requestID c + 1" by simp
  have "map fst (fst (HTTPClient_sendRequests lib c (call # calls))) =
          http_requestID c' # map fst (fst (HTTPClient_sendRequests lib c' calls))"
    using s by (simp split: prod.splits)
  also have "\<dots> = http_requestID c' #
                     map (\<lambda>i. http_requestID c' + word_of_nat (Suc i)) [0..<length calls]"
    by (simp only: Cons.IH)
  also have "\<dots> = map (\<lambda>i. http_requestID c + word_of_nat (Suc i))
                       (0 # map Suc [0..<length calls])"
    by (simp add: c' comp_def add.assoc)
  also have "0 # map Suc [0..<length calls] = [0..<length (call # calls)]"
    by (simp add: upt_conv_Cons map_Suc_upt del: upt_Suc)
  finally show ?case .
qed

text \<open>
  C6. On a fresh connection (process or HTTP), the successive \<open>sendRequest\<close> calls are
  issued the identifiers 1, 2, 3, ... in order, whatever each call's outcome: strictly
  increasing, none reused. The identifier issued to a call is the one in the request
  the call marshals, and that marshalled request is what the call writes to the
  subprocess (or posts), if it writes anything. The counter is a signed 64-bit integer,
  so this is stated for fewer than \<open>2 ^ 63\<close> calls on one connection.
\<close>

theorem request_ids_count_up:
  assumes "requestID c = 0" and "http_requestID h = 0" and "length calls < 2 ^ 63"
  shows "map (\<lambda>out. sint (fst out)) (fst (sendRequests lib c calls)) =
           map int [1..<Suc (length calls)] \<and>
         list_all2 (sent_with_id lib) calls (fst (sendRequests lib c calls)) \<and>
         map (\<lambda>out. sint (fst out)) (fst (HTTPClient_sendRequests lib h calls)) =
           map int [1..<Suc (length calls)] \<and>
         list_all2 (posted_with_id lib) calls (fst (HTTPClient_sendRequests lib h calls))"
proof -
  have "sint (word_of_nat (Suc i) :: int64) = int (Suc i)" if "i < length calls" for i
    using that assms(3) by (intro sint_of_nat_64) simp
  then have "map (\<lambda>i. sint (word_of_nat (Suc i) :: int64)) [0..<length calls] =
             map (\<lambda>i. int (Suc i)) [0..<length calls]"
    by (intro map_cong) simp_all
  also have "\<dots> = map int [1..<Suc (length calls)]"
    by (rule upt_shift)
  finally have n: "map (\<lambda>i. sint (word_of_nat (Suc i) :: int64)) [0..<length calls] =
                map int [1..<Suc (length calls)]" .
  have "map (\<lambda>out. sint (fst out)) (fst (sendRequests lib c calls)) =
          map sint (map fst (fst (sendRequests lib c calls)))"
    by (simp add: comp_def)
  also have "\<dots> = map int [1..<Suc (length calls)]"
    using n by (simp add: sendRequests_ids assms(1) comp_def)
  finally have 1: "map (\<lambda>out. sint (fst out)) (fst (sendRequests lib c calls)) =
          map int [1..<Suc (length calls)]" .
  have "map (\<lambda>out. sint (fst out)) (fst (HTTPClient_sendRequests lib h calls)) =
          map sint (map fst (fst (HTTPClient_sendRequests lib h calls)))"
    by (simp add: comp_def)
  also have "\<dots> = map int [1..<Suc (length calls)]"
    using n by (simp add: HTTPClient_sendRequests_ids assms(2) comp_def)
  finally have 2: "map (\<lambda>out. sint (fst out)) (fst (HTTPClient_sendRequests lib h calls)) =
          map int [1..<Suc (length calls)]" .
  from 1 2 sendRequests_sent [of lib calls c] HTTPClient_sendRequests_posted [of lib calls h]
  show ?thesis by simp
qed

lemma wire_texts:
  "wire_text (requestOf 1 ''initialize'' params) = wire_initialize1"
  "wire_text (requestOf 2 ''tools/list'' params) = wire_list2"
  "wire_text (requestOf 3 ''tools/list'' params) = wire_list3"
  by (simp_all add: wire_text_def requestOf_def showInt_def decimal.simps wire_initialize1_def
        wire_list2_def wire_list3_def)

lemma wire_lib_simps:
  "json_Marshal wire_lib req = Some (wire_text req)"
  "json_Unmarshal_Response wire_lib = json_Unmarshal_Response demo_lib"
  "http_NewRequest_ok wire_lib url"
  by (simp_all add: wire_lib_def, simp add: demo_lib_def)

lemmas wire_eval =
  sendRequest_def stdin_Write_def Let_def wire_lib_simps wire_texts [unfolded requestOf_def]
  scan.simps maxAttempts_def demo_TrimSpace demo_hd hd_nth0 demo_Unmarshal_Response

lemma wire_call1:
  "sendRequest wire_lib (demo_client\<lparr>stdout := [Line line_err1, Line line_echo2]\<rparr>) ''initialize'' None =
     (Inl (RPCError (- 32601) ''no''),
      \<lparr>name = ''a'', requestID = 1, tools = [], stdin_sent = [wire_initialize1 @ ''\<newline>''],
        stdin_faults = [], stdin_closed = False, stdout = [Line line_echo2], running = True\<rparr>)"
  by (simp add: demo_client_def wire_eval) (simp add: resp_err1_def)

lemma wire_call2:
  "sendRequest wire_lib
     \<lparr>name = ''a'', requestID = 1, tools = [], stdin_sent = [wire_initialize1 @ ''\<newline>''],
       stdin_faults = [], stdin_closed = False, stdout = [Line line_echo2], running = True\<rparr>
     ''tools/list'' None =
     (Inr resp_echo2,
      \<lparr>name = ''a'', requestID = 2, tools = [],
        stdin_sent = [wire_initialize1 @ ''\<newline>'', wire_list2 @ ''\<newline>''],
        stdin_faults = [], stdin_closed = False, stdout = [], running = True\<rparr>)"
  by (simp add: wire_eval) (simp add: resp_echo2_def)

lemma wire_call3:
  "sendRequest wire_lib
     \<lparr>name = ''a'', requestID = 2, tools = [],
       stdin_sent = [wire_initialize1 @ ''\<newline>'', wire_list2 @ ''\<newline>''],
       stdin_faults = [], stdin_closed = False, stdout = [], running = True\<rparr>
     ''tools/list'' None =
     (Inl ReadResponseFailed,
      \<lparr>name = ''a'', requestID = 3, tools = [],
        stdin_sent = [wire_initialize1 @ ''\<newline>'', wire_list2 @ ''\<newline>'', wire_list3 @ ''\<newline>''],
        stdin_faults = [], stdin_closed = False, stdout = [], running = True\<rparr>)"
  by (simp add: wire_eval)

lemma wire_sendRequests:
  "fst (sendRequests wire_lib (demo_client\<lparr>stdout := [Line line_err1, Line line_echo2]\<rparr>)
          [(''initialize'', None), (''tools/list'', None), (''tools/list'', None)]) =
     [(1, [wire_initialize1 @ ''\<newline>''], Inl (RPCError (- 32601) ''no'')),
      (2, [wire_list2 @ ''\<newline>''], Inr resp_echo2),
      (3, [wire_list3 @ ''\<newline>''], Inl ReadResponseFailed)]"
  by (simp add: wire_call1 wire_call2 wire_call3) (simp add: demo_client_def)

lemmas wire_http_eval =
  HTTPClient_sendRequest_def httpClient_Do_def Let_def wire_lib_simps
  wire_texts [unfolded requestOf_def] demo_Unmarshal_Response

lemma wire_post1:
  "HTTPClient_sendRequest wire_lib
     (demo_http\<lparr>http_replies := [Response 500 [] True, Response 200 line_ok7 True]\<rparr>)
     ''initialize'' None =
     (Inl (HTTPError 500 []),
      \<lparr>http_name = ''b'', baseURL = ''u'', http_requestID = 1, http_tools = [], isSSE = False,
        http_posts = [(''u'', wire_initialize1)], http_replies = [Response 200 line_ok7 True]\<rparr>)"
  by (simp add: demo_http_def wire_http_eval)

lemma wire_post2:
  "HTTPClient_sendRequest wire_lib
     \<lparr>http_name = ''b'', baseURL = ''u'', http_requestID = 1, http_tools = [], isSSE = False,
       http_posts = [(''u'', wire_initialize1)], http_replies = [Response 200 line_ok7 True]\<rparr>
     ''tools/list'' None =
     (Inr resp_ok7,
      \<lparr>http_name = ''b'', baseURL = ''u'', http_requestID = 2, http_tools = [], isSSE = False,
        http_posts = [(''u'', wire_initialize1), (''u'', wire_list2)], http_replies = []\<rparr>)"
  by (simp add: wire_http_eval) (simp add: resp_ok7_def wire_texts [unfolded requestOf_def])

lemma wire_post3:
  "HTTPClient_sendRequest wire_lib
     \<lparr>http_name = ''b'', baseURL = ''u'', http_requestID = 2, http_tools = [], isSSE = False,
       http_posts = [(''u'', wire_initialize1), (''u'', wire_list2)], http_replies = []\<rparr>
     ''tools/list'' None =
     (Inl HTTPRequestFailed,
      \<lparr>http_name = ''b'', baseURL = ''u'', http_requestID = 3, http_tools = [], isSSE = False,
        http_posts = [(''u'', wire_initialize1), (''u'', wire_list2), (''u'', wire_list3)],
        http_replies = []\<rparr>)"
  by (simp add: wire_http_eval)

lemma wire_HTTPClient_sendRequests:
  "fst (HTTPClient_sendRequests wire_lib
          (demo_http\<lparr>http_replies := [Response 500 [] True, Response 200 line_ok7 True]\<rparr>)
          [(''initialize'', None), (''tools/list'', None), (''tools/list'', None)]) =
     [(1, [(''u'', wire_initialize1)], Inl (HTTPError 500 [])),
      (2, [(''u'', wire_list2)], Inr resp_ok7),
      (3, [(''u'', wire_list3)], Inl HTTPRequestFailed)]"
  by (simp add: wire_post1 wire_post2 wire_post3) (simp add: demo_http_def)

theorem request_ids_count_up_witness:
  "map (\<lambda>out. sint (fst out))
     (fst (sendRequests wire_lib (demo_client\<lparr>stdout := [Line line_err1, Line line_echo2]\<rparr>)
        [(''initialize'', None), (''tools/list'', None), (''tools/list'', None)])) = [1, 2, 3] \<and>
   map (\<lambda>out. fst (snd out))
     (fst (sendRequests wire_lib (demo_client\<lparr>stdout := [Line line_err1, Line line_echo2]\<rparr>)
        [(''initialize'', None), (''tools/list'', None), (''tools/list'', None)])) =
     [[wire_initialize1 @ ''\<newline>''], [wire_list2 @ ''\<newline>''], [wire_list3 @ ''\<newline>'']] \<and>
   map (\<lambda>out. sint (fst out))
     (fst (HTTPClient_sendRequests wire_lib
        (demo_http\<lparr>http_replies := [Response 500 [] True, Response 200 line_ok7 True]\<rparr>)
        [(''initialize'', None), (''tools/list'', None), (''tools/list'', None)])) = [1, 2, 3] \<and>
   map (\<lambda>out. map snd (fst (snd out)))
     (fst (HTTPClient_sendRequests wire_lib
        (demo_http\<lparr>http_replies := [Response 500 [] True, Response 200 line_ok7 True]\<rparr>)
        [(''initialize'', None), (''tools/list'', None), (''tools/list'', None)])) =
     [[wire_initialize1], [wire_list2], [wire_list3]]"
proof -
  have "[1..<Suc (length [(''initialize'', None :: json option), (''tools/list'', None), (''tools/list'', None)])]
          = [1, 2, 3]"
    by (simp add: upt_rec)
  with request_ids_count_up [of "demo_client\<lparr>stdout := [Line line_err1, Line line_echo2]\<rparr>"
      "demo_http\<lparr>http_replies := [Response 500 [] True, Response 200 line_ok7 True]\<rparr>"
      "[(''initialize'', None), (''tools/list'', None), (''tools/list'', None)]" wire_lib]
  have "map (\<lambda>out. sint (fst out))
     (fst (sendRequests wire_lib (demo_client\<lparr>stdout := [Line line_err1, Line line_echo2]\<rparr>)
        [(''initialize'', None), (''tools/list'', None), (''tools/list'', None)])) = [1, 2, 3]"
    and "map (\<lambda>out. sint (fst out))
     (fst (HTTPClient_sendRequests wire_lib
        (demo_http\<lparr>http_replies := [Response 500 [] True, Response 200 line_ok7 True]\<rparr>)
        [(''initialize'', None), (''tools/list'', None), (''tools/list'', None)])) = [1, 2, 3]"
    by (simp_all add: demo_client_def demo_http_def)
  moreover have "map (\<lambda>out. fst (snd out))
     (fst (sendRequests wire_lib (demo_client\<lparr>stdout := [Line line_err1, Line line_echo2]\<rparr>)
        [(''initialize'', None), (''tools/list'', None), (''tools/list'', None)])) =
     [[wire_initialize1 @ ''\<newline>''], [wire_list2 @ ''\<newline>''], [wire_list3 @ ''\<newline>'']]"
    by (simp only: wire_sendRequests) simp
  moreover have "map (\<lambda>out. map snd (fst (snd out)))
     (fst (HTTPClient_sendRequests wire_lib
        (demo_http\<lparr>http_replies := [Response 500 [] True, Response 200 line_ok7 True]\<rparr>)
        [(''initialize'', None), (''tools/list'', None), (''tools/list'', None)])) =
     [[wire_initialize1], [wire_list2], [wire_list3]]"
    by (simp only: wire_HTTPClient_sendRequests) simp
  ultimately show ?thesis by blast
qed

text \<open>
  C10. On both connection types, a \<open>ListTools\<close> call that fails, for whatever reason,
  leaves the cached tool list that \<open>Tools()\<close> returns as it was; a call that succeeds
  replaces it with exactly the list it returned.
\<close>

theorem ListTools_replaces_cache_only_on_success:
  "(\<forall>err. fst (Client_ListTools lib c) = Inl err \<longrightarrow>
      Client_Tools (snd (Client_ListTools lib c)) = Client_Tools c) \<and>
   (\<forall>ts. fst (Client_ListTools lib c) = Inr ts \<longrightarrow>
      Client_Tools (snd (Client_ListTools lib c)) = ts) \<and>
   (\<forall>err. fst (HTTPClient_ListTools lib h) = Inl err \<longrightarrow>
      HTTPClient_Tools (snd (HTTPClient_ListTools lib h)) = HTTPClient_Tools h) \<and>
   (\<forall>ts. fst (HTTPClient_ListTools lib h) = Inr ts \<longrightarrow>
      HTTPClient_Tools (snd (HTTPClient_ListTools lib h)) = ts)"
  using Client_ListTools_cache [of lib c] HTTPClient_ListTools_cache [of lib h]
  by (auto split: sum.splits)

lemma Client_ListTools_result:
  "fst (Client_ListTools lib c) =
     (case fst (sendRequest lib c ''tools/list'' None) of
        Inl err \<Rightarrow> Inl (ToolsListFailed err)
      | Inr resp \<Rightarrow>
          (case json_Unmarshal_ToolsList lib (rawBytes (Result resp)) of
             None \<Rightarrow> Inl ParseToolsListFailed
           | Some result \<Rightarrow> Inr (Tools result)))"
  by (cases "sendRequest lib c ''tools/list'' None")
     (auto simp: Client_ListTools_def split: sum.splits option.splits)

lemma HTTPClient_ListTools_result:
  "fst (HTTPClient_ListTools lib h) =
     (case fst (HTTPClient_sendRequest lib h ''tools/list'' None) of
        Inl err \<Rightarrow> Inl (ToolsListFailed err)
      | Inr resp \<Rightarrow>
          (case json_Unmarshal_ToolsList lib (rawBytes (Result resp)) of
             None \<Rightarrow> Inl ParseToolsListFailed
           | Some result \<Rightarrow> Inr (Tools result)))"
  by (cases "HTTPClient_sendRequest lib h ''tools/list'' None")
     (auto simp: HTTPClient_ListTools_def split: sum.splits option.splits)

lemma HTTPClient_sendRequest_no_reply:
  assumes "json_Marshal lib (requestOf (http_requestID h + 1) method params) = Some data"
      and "http_NewRequest_ok lib (if isSSE h then baseURL h @ ''/message'' else baseURL h)"
      and "http_replies h = []"
  shows "fst (HTTPClient_sendRequest lib h method params) = Inl HTTPRequestFailed"
  using assms
  by (auto simp: HTTPClient_sendRequest_def requestOf_def httpClient_Do_def Let_def)

lemma demo_Unmarshal_ToolsList:
  "json_Unmarshal_ToolsList demo_lib text_echo = Some \<lparr>Tools = [tool_echo]\<rparr>"
  by (simp add: demo_lib_def)

lemma demo_ListTools_fails:
  "fst (Client_ListTools demo_lib (demo_client\<lparr>tools := [tool_echo]\<rparr>)) =
     Inl (ToolsListFailed ReadResponseFailed)"
proof -
  let ?c = "demo_client\<lparr>tools := [tool_echo]\<rparr>"
  have "writable ?c" "stdout ?c = []" "requestID ?c = 0"
    by (simp_all add: demo_client_def writable_def)
  with sendRequest_scan(1) [of demo_lib ?c "''tools/list''" None "''tools/list''"]
  have "fst (sendRequest demo_lib ?c ''tools/list'' None) = Inl ReadResponseFailed"
    by (simp add: demo_marshal scan_nil maxAttempts_def)
  then show ?thesis
    by (simp add: Client_ListTools_result)
qed

lemma demo_ListTools_succeeds:
  "fst (Client_ListTools demo_lib (demo_client\<lparr>requestID := 1, stdout := [Line line_echo2]\<rparr>)) =
     Inr [tool_echo]"
proof -
  let ?c = "demo_client\<lparr>requestID := 1, stdout := [Line line_echo2]\<rparr>"
  have "fst (sendRequest demo_lib ?c ''tools/list'' None) =
          (case Error resp_echo2 of Some e \<Rightarrow> Inl (RPCError (Code e) (Message e)) | None \<Rightarrow> Inr resp_echo2)"
  proof (rule sendRequest_after_skipped(1) [where pre = "[]" and raw = line_echo2 and rest = "[]"
          and data = "''tools/list''"])
    show "ID resp_echo2 = requestID ?c + 1" by (simp add: resp_echo2_def)
    show "writable ?c" by (simp add: demo_client_def writable_def)
  qed (simp_all add: demo_marshal demo_decoded demo_notification maxAttempts_def)
  then have "fst (sendRequest demo_lib ?c ''tools/list'' None) = Inr resp_echo2"
    by (simp add: resp_echo2_def)
  then show ?thesis
    by (simp add: Client_ListTools_result rawBytes_def resp_echo2_def demo_Unmarshal_ToolsList)
qed

lemma demo_http_ListTools_fails:
  "fst (HTTPClient_ListTools demo_lib (demo_http\<lparr>http_tools := [tool_echo]\<rparr>)) =
     Inl (ToolsListFailed HTTPRequestFailed)"
proof -
  let ?h = "demo_http\<lparr>http_tools := [tool_echo]\<rparr>"
  have "fst (HTTPClient_sendRequest demo_lib ?h ''tools/list'' None) = Inl HTTPRequestFailed"
    by (rule HTTPClient_sendRequest_no_reply [where data = "''tools/list''"])
       (simp_all add: demo_marshal, simp_all add: demo_lib_def demo_http_def)
  then show ?thesis by (simp add: HTTPClient_ListTools_result)
qed

lemma demo_http_ListTools_succeeds:
  "fst (HTTPClient_ListTools demo_lib (demo_http\<lparr>http_replies := [Response 200 line_echo2 True]\<rparr>)) =
     Inr [tool_echo]"
proof -
  let ?h = "demo_http\<lparr>http_replies := [Response 200 line_echo2 True]\<rparr>"
  have "fst (HTTPClient_sendRequest demo_lib ?h ''tools/list'' None) =
          (case Error resp_echo2 of Some e \<Rightarrow> Inl (RPCError (Code e) (Message e)) | None \<Rightarrow> Inr resp_echo2)"
    by (rule HTTPClient_sendRequest_body [where data = "''tools/list''" and body = line_echo2 and evs = "[]"])
       (simp_all add: demo_marshal demo_Unmarshal_Response, simp_all add: demo_lib_def demo_http_def)
  then have "fst (HTTPClient_sendRequest demo_lib ?h ''tools/list'' None) = Inr resp_echo2"
    by (simp add: resp_echo2_def)
  then show ?thesis
    by (simp add: HTTPClient_ListTools_result rawBytes_def resp_echo2_def demo_Unmarshal_ToolsList)
qed

theorem ListTools_replaces_cache_only_on_success_witness:
  "Client_Tools (snd (Client_ListTools demo_lib (demo_client\<lparr>tools := [tool_echo]\<rparr>))) = [tool_echo] \<and>
   Client_Tools (snd (Client_ListTools demo_lib
      (demo_client\<lparr>requestID := 1, stdout := [Line line_echo2]\<rparr>))) = [tool_echo] \<and>
   HTTPClient_Tools (snd (HTTPClient_ListTools demo_lib (demo_http\<lparr>http_tools := [tool_echo]\<rparr>))) = [tool_echo] \<and>
   HTTPClient_Tools (snd (HTTPClient_ListTools demo_lib
      (demo_http\<lparr>http_replies := [Response 200 line_echo2 True]\<rparr>))) = [tool_echo]"
  using ListTools_replaces_cache_only_on_success [of demo_lib "demo_client\<lparr>tools := [tool_echo]\<rparr>"
          "demo_http\<lparr>http_tools := [tool_echo]\<rparr>"]
        ListTools_replaces_cache_only_on_success [of demo_lib "demo_client\<lparr>requestID := 1, stdout := [Line line_echo2]\<rparr>"
          "demo_http\<lparr>http_replies := [Response 200 line_echo2 True]\<rparr>"]
        demo_ListTools_fails demo_ListTools_succeeds
        demo_http_ListTools_fails demo_http_ListTools_succeeds
  by (simp add: Client_Tools_def HTTPClient_Tools_def)

section \<open>Claims about the configuration loader\<close>

lemma expandHome_plain:
  "\<not> (path \<noteq> [] \<and> hd path = CHR ''~'') \<Longrightarrow> expandHome lib sys path = Some path"
  by (cases path) (auto simp: expandHome_def)

text \<open>
  C9. \<open>LoadMCPConfig\<close> on a path whose file does not exist returns a configuration
  with an empty, non-nil server map and no error; on a file whose contents do not
  parse as the configuration it returns an error and no configuration. The file is
  the path itself unless the path begins with \<open>~\<close>, which is expanded first.
\<close>

theorem LoadMCPConfig_missing_or_malformed:
  "(\<not> (path \<noteq> [] \<and> hd path = CHR ''~'') \<longrightarrow> expandHome lib sys path = Some path) \<and>
   (expandHome lib sys path = Some file \<and> ReadFile sys file = NotExist \<longrightarrow>
      LoadMCPConfig lib sys path = Inr \<lparr>MCPServers = Some []\<rparr>) \<and>
   (expandHome lib sys path = Some file \<and> ReadFile sys file = Contents data \<and>
    json_Unmarshal_Config lib data = None \<longrightarrow>
      LoadMCPConfig lib sys path = Inl ConfigParseFailed)"
  by (simp add: expandHome_plain LoadMCPConfig_def)

theorem LoadMCPConfig_missing_or_malformed_witness:
  "LoadMCPConfig demo_lib demo_sys ''/nonexistent/path/mcp.json'' = Inr \<lparr>MCPServers = Some []\<rparr> \<and>
   LoadMCPConfig demo_lib demo_sys ''bad.json'' = Inl ConfigParseFailed"
proof -
  have 1: "\<not> (''/nonexistent/path/mcp.json'' \<noteq> [] \<and> hd ''/nonexistent/path/mcp.json'' = CHR ''~'')"
    and 2: "\<not> (''bad.json'' \<noteq> [] \<and> hd ''bad.json'' = CHR ''~'')"
    by simp_all
  have 3: "ReadFile demo_sys ''/nonexistent/path/mcp.json'' = NotExist"
    and 4: "ReadFile demo_sys ''bad.json'' = Contents ''{''"
    by (simp_all add: demo_sys_def)
  have 5: "json_Unmarshal_Config demo_lib ''{'' = None"
    by (simp add: demo_lib_def text_config_def)
  from LoadMCPConfig_missing_or_malformed
         [of "''/nonexistent/path/mcp.json''" demo_lib demo_sys "''/nonexistent/path/mcp.json''" "[]"]
       LoadMCPConfig_missing_or_malformed
         [of "''bad.json''" demo_lib demo_sys "''bad.json''" "''{''"]
       1 2 3 4 5
  show ?thesis by simp
qed

section \<open>Claims about the manager\<close>

lemma sendRequest_changes: "snd (sendRequest lib c method params) \<noteq> c"
proof
  assume "snd (sendRequest lib c method params) = c"
  then have "requestID (snd (sendRequest lib c method params)) = requestID c" by simp
  then show False by (simp add: sendRequest_requestID)
qed

lemma HTTPClient_sendRequest_changes: "snd (HTTPClient_sendRequest lib h method params) \<noteq> h"
proof
  assume "snd (HTTPClient_sendRequest lib h method params) = h"
  then have "http_requestID (snd (HTTPClient_sendRequest lib h method params)) = http_requestID h"
    by simp
  then show False by (simp add: HTTPClient_sendRequest_requestID)
qed

lemma Client_CallTool_snd:
  "snd (Client_CallTool lib c tool args) = snd (sendRequest lib c ''tools/call'' (Some (toolCallParams tool args)))"
  by (cases "sendRequest lib c ''tools/call'' (Some (toolCallParams tool args))")
     (auto simp: Client_CallTool_def split: sum.splits)

lemma HTTPClient_CallTool_snd:
  "snd (HTTPClient_CallTool lib h tool args) =
     snd (HTTPClient_sendRequest lib h ''tools/call'' (Some (toolCallParams tool args)))"
  by (cases "HTTPClient_sendRequest lib h ''tools/call'' (Some (toolCallParams tool args))")
     (auto simp: HTTPClient_CallTool_def split: sum.splits)

lemma MCPClient_CallTool_changes: "snd (MCPClient_CallTool lib k tool args) \<noteq> k"
  by (cases k)
     (simp_all add: MCPClient_CallTool_def Client_CallTool_snd HTTPClient_CallTool_snd
        sendRequest_changes HTTPClient_sendRequest_changes)

text \<open>
  C3. \<open>ExecuteTool\<close> on a name that the routing table does not hold returns the
  unknown-tool error and leaves every connection as it was: no \<open>CallTool\<close> ran, since
  a \<open>CallTool\<close> on any connection changes that connection (its request counter). On a
  name the table holds it returns exactly what \<open>CallTool\<close> of the owning connection
  returns, and that connection is the only object changed.
\<close>

theorem ExecuteTool_routes:
  "(toolToClient m tool = None \<longrightarrow>
      ExecuteTool lib m rt tool args = (Inl (UnknownTool tool), rt)) \<and>
   (\<forall>k tool' args'. snd (MCPClient_CallTool lib k tool' args') \<noteq> k) \<and>
   (\<forall>a k. toolToClient m tool = Some a \<and> object_at rt a = Some k \<longrightarrow>
      fst (ExecuteTool lib m rt tool args) = fst (MCPClient_CallTool lib k tool args) \<and>
      snd (ExecuteTool lib m rt tool args) =
        rt\<lparr>heap := (heap rt)[a := snd (MCPClient_CallTool lib k tool args)]\<rparr>)"
  by (auto simp: ExecuteTool_def invoke_def MCPClient_CallTool_changes split: prod.splits)

lemma Client_CallTool_result:
  "fst (Client_CallTool lib c tool args) =
     (case fst (sendRequest lib c ''tools/call'' (Some (toolCallParams tool args))) of
        Inl err \<Rightarrow> Inl (ToolsCallFailed err)
      | Inr resp \<Rightarrow> toolCallOutput lib resp)"
  by (cases "sendRequest lib c ''tools/call'' (Some (toolCallParams tool args))")
     (auto simp: Client_CallTool_def split: sum.splits)

lemma demo_CallTool:
  "fst (MCPClient_CallTool demo_lib (ProcessConn (demo_client\<lparr>stdout := [Line line_hi1]\<rparr>))
          ''echo'' (JObject [])) = Inr ''hi''"
proof -
  let ?c = "demo_client\<lparr>stdout := [Line line_hi1]\<rparr>"
  let ?p = "Some (toolCallParams ''echo'' (JObject []))"
  have "fst (sendRequest demo_lib ?c ''tools/call'' ?p) =
          (case Error resp_hi1 of Some e \<Rightarrow> Inl (RPCError (Code e) (Message e)) | None \<Rightarrow> Inr resp_hi1)"
  proof (rule sendRequest_after_skipped(1) [where pre = "[]" and raw = line_hi1 and rest = "[]"
          and data = "''tools/call''"])
    show "ID resp_hi1 = requestID ?c + 1" by (simp add: demo_client_facts resp_hi1_def)
  qed (simp_all add: demo_marshal demo_client_facts demo_decoded demo_notification maxAttempts_def)
  then have "fst (sendRequest demo_lib ?c ''tools/call'' ?p) = Inr resp_hi1"
    by (simp add: resp_hi1_def)
  moreover have "toolCallOutput demo_lib resp_hi1 = Inr ''hi''"
    by (simp add: toolCallOutput_def rawBytes_def resp_hi1_def, simp add: demo_lib_def textOf_def)
  ultimately show ?thesis
    by (simp add: MCPClient_CallTool_def Client_CallTool_result)
qed

theorem ExecuteTool_routes_witness:
  "ExecuteTool demo_lib demo_manager demo_rt ''nope'' (JObject []) = (Inl (UnknownTool ''nope''), demo_rt) \<and>
   fst (ExecuteTool demo_lib demo_manager demo_rt ''echo'' (JObject [])) = Inr ''hi''"
proof -
  have 1: "toolToClient demo_manager ''nope'' = None"
    and 2: "toolToClient demo_manager ''echo'' = Some 0"
    by (simp_all add: demo_manager_def)
  have 3: "object_at demo_rt 0 = Some (ProcessConn (demo_client\<lparr>stdout := [Line line_hi1]\<rparr>))"
    by (simp add: object_at_def demo_rt_def)
  from ExecuteTool_routes [of demo_manager "''nope''" demo_lib demo_rt "JObject []"] 1
  have "ExecuteTool demo_lib demo_manager demo_rt ''nope'' (JObject []) = (Inl (UnknownTool ''nope''), demo_rt)"
    by blast
  moreover
  from ExecuteTool_routes [of demo_manager "''echo''" demo_lib demo_rt "JObject []"] 2 3
  have "fst (ExecuteTool demo_lib demo_manager demo_rt ''echo'' (JObject [])) =
          fst (MCPClient_CallTool demo_lib (ProcessConn (demo_client\<lparr>stdout := [Line line_hi1]\<rparr>))
                 ''echo'' (JObject []))"
    by blast
  ultimately show ?thesis by (simp add: demo_CallTool)
qed

section \<open>The store\<close>

lemma heap_logf [simp]: "heap (logf l rt) = heap rt"
  by (simp add: logf_def)

lemma invoke_last:
  assumes "heap rt = H @ [k]"
  shows "invoke f p (length H) rt = (fst (f k), rt\<lparr>heap := H @ [snd (f k)]\<rparr>)"
  using assms by (simp add: invoke_def object_at_def split: prod.splits)

lemma closeAt_last:
  assumes "heap rt = H @ [k]"
  shows "heap (closeAt (length H) rt) = H @ [MCPClient_Close k]"
  using assms by (simp add: closeAt_def invoke_last)

lemma mapTools_clients [simp]: "clients (mapTools m a ts) = clients m"
  unfolding mapTools_def by (induction ts arbitrary: m) simp_all

lemma mapTools_toolToClient:
  "toolToClient (mapTools m a ts) t = (if t \<in> Name ` set ts then Some a else toolToClient m t)"
  unfolding mapTools_def by (induction ts arbitrary: m) auto

section \<open>One entry of the configuration\<close>

lemma loadServer_not_constructed:
  assumes "constructed sys nm cfg = None"
  shows "fst (loadServer lib sys (m, rt) (nm, cfg)) = m"
    and "heap (snd (loadServer lib sys (m, rt) (nm, cfg))) = heap rt"
  using assms
  by (auto simp: loadServer_def constructed_def Let_def split: sum.splits if_splits)

lemma loadServer_constructed:
  assumes "constructed sys nm cfg = Some k"
  shows "loadServer lib sys (m, rt) (nm, cfg) =
           (case new_object k rt of (client, rt) \<Rightarrow>
            (case invoke (MCPClient_Initialize lib) (Some NilDereference) client rt of
               (Some err, rt) \<Rightarrow> (m, closeAt client (logf (InitializeWarning nm err) rt))
             | (None, rt) \<Rightarrow>
                 (case invoke (MCPClient_ListTools lib) (Inl NilDereference) client rt of
                    (Inl err, rt) \<Rightarrow> (m, closeAt client (logf (ListToolsWarning nm err) rt))
                  | (Inr ts, rt) \<Rightarrow>
                      (mapTools (m\<lparr>clients := (clients m)(nm \<mapsto> client)\<rparr>) client ts,
                       logf (LoadedTools (length ts) nm) rt))))"
  using assms
  by (auto simp: loadServer_def constructed_def Let_def split: sum.splits if_splits)

lemma loadServer_effect:
  "(case startServer lib sys (nm, cfg) of
      NotStarted \<Rightarrow>
        fst (loadServer lib sys (m, rt) (nm, cfg)) = m \<and>
        heap (snd (loadServer lib sys (m, rt) (nm, cfg))) = heap rt
    | Failed k \<Rightarrow>
        fst (loadServer lib sys (m, rt) (nm, cfg)) = m \<and>
        heap (snd (loadServer lib sys (m, rt) (nm, cfg))) = heap rt @ [k]
    | Ready k ts \<Rightarrow>
        fst (loadServer lib sys (m, rt) (nm, cfg)) =
          mapTools (m\<lparr>clients := (clients m)(nm \<mapsto> length (heap rt))\<rparr>) (length (heap rt)) ts \<and>
        heap (snd (loadServer lib sys (m, rt) (nm, cfg))) = heap rt @ [k])"
proof (cases "constructed sys nm cfg")
  case None
  then show ?thesis
    by (simp add: startServer_def loadServer_not_constructed)
next
  case (Some k)
  let ?H = "heap rt"
  let ?rt1 = "rt\<lparr>heap := ?H @ [k]\<rparr>"
  obtain r1 k1 where i: "MCPClient_Initialize lib k = (r1, k1)"
    by (cases "MCPClient_Initialize lib k")
  let ?rt2 = "?rt1\<lparr>heap := ?H @ [k1]\<rparr>"
  have inv1: "invoke (MCPClient_Initialize lib) (Some NilDereference) (length ?H) ?rt1 = (r1, ?rt2)"
    using invoke_last [of ?rt1 ?H k "MCPClient_Initialize lib" "Some NilDereference"] i by simp
  show ?thesis
  proof (cases r1)
    case (Some err)
    have "heap (closeAt (length ?H) (logf (InitializeWarning nm err) ?rt2)) = ?H @ [MCPClient_Close k1]"
      by (rule closeAt_last) simp
    with \<open>constructed sys nm cfg = Some k\<close> i Some inv1 show ?thesis
      by (simp add: startServer_def loadServer_constructed new_object_def)
  next
    case None
    obtain r2 k2 where l: "MCPClient_ListTools lib k1 = (r2, k2)"
      by (cases "MCPClient_ListTools lib k1")
    let ?rt3 = "?rt2\<lparr>heap := ?H @ [k2]\<rparr>"
    have inv2: "invoke (MCPClient_ListTools lib) (Inl NilDereference) (length ?H) ?rt2 = (r2, ?rt3)"
      using invoke_last [of ?rt2 ?H k1 "MCPClient_ListTools lib" "Inl NilDereference"] l by simp
    show ?thesis
    proof (cases r2)
      case (Inl err)
      have "heap (closeAt (length ?H) (logf (ListToolsWarning nm err) ?rt3)) = ?H @ [MCPClient_Close k2]"
        by (rule closeAt_last) simp
      with \<open>constructed sys nm cfg = Some k\<close> i None inv1 l Inl inv2 show ?thesis
        by (simp add: startServer_def loadServer_constructed new_object_def)
    next
      case (Inr ts)
      with \<open>constructed sys nm cfg = Some k\<close> i None inv1 l inv2 show ?thesis
        by (simp add: startServer_def loadServer_constructed new_object_def)
    qed
  qed
qed

section \<open>The invariant of the loading loop\<close>

lemma loaded_empty: "loaded lib sys n0 [] NewManager H"
  by (simp add: loaded_def NewManager_def)

lemma loaded_step:
  assumes inv: "loaded lib sys n0 es m (heap rt)"
      and n0: "n0 \<le> length (heap rt)"
      and fresh: "fst e \<notin> fst ` set es"
  shows "loaded lib sys n0 (es @ [e]) (fst (loadServer lib sys (m, rt) e))
           (heap (snd (loadServer lib sys (m, rt) e)))"
proof -
  let ?H = "heap rt"
  obtain nm cfg where e: "e = (nm, cfg)" by (cases e)
  from inv have I1: "\<And>nm a. clients m nm = Some a \<Longrightarrow>
        n0 \<le> a \<and> a < length ?H \<and>
        (\<exists>cfg ts. (nm, cfg) \<in> set es \<and> startServer lib sys (nm, cfg) = Ready (?H ! a) ts)"
    and I2: "\<And>e k ts. e \<in> set es \<Longrightarrow> startServer lib sys e = Ready k ts \<Longrightarrow>
        (\<exists>a. clients m (fst e) = Some a \<and> a < length ?H \<and> ?H ! a = k)"
    and I3: "\<And>t a. toolToClient m t = Some a \<Longrightarrow>
        (\<exists>e k ts. e \<in> set es \<and> startServer lib sys e = Ready k ts \<and>
                  clients m (fst e) = Some a \<and> t \<in> Name ` set ts)"
    and I4: "\<And>e k. e \<in> set es \<Longrightarrow> startServer lib sys e = Failed k \<Longrightarrow>
        (\<exists>a < length ?H. ?H ! a = k \<and> (\<forall>nm. clients m nm \<noteq> Some a) \<and>
                         (\<forall>t. toolToClient m t \<noteq> Some a))"
    unfolding loaded_def by blast+
  have I3': "a < length ?H" if "toolToClient m t = Some a" for t a
    using I3 [OF that] I1 by blast
  from fresh e have nm: "\<And>e'. e' \<in> set es \<Longrightarrow> fst e' \<noteq> nm" by force
  show ?thesis
  proof (cases "startServer lib sys (nm, cfg)")
    case NotStarted
    with loadServer_effect [where lib = lib and sys = sys and nm = nm and cfg = cfg and m = m and rt = rt]
    have eff: "fst (loadServer lib sys (m, rt) e) = m"
      "heap (snd (loadServer lib sys (m, rt) e)) = ?H"
      by (simp_all add: e)
    have "loaded lib sys n0 (es @ [e]) m ?H"
      unfolding loaded_def
    proof (intro conjI allI impI)
      fix nm' a assume "clients m nm' = Some a"
      from I1 [OF this]
      show "n0 \<le> a" "a < length ?H"
        "\<exists>cfg ts. (nm', cfg) \<in> set (es @ [e]) \<and> startServer lib sys (nm', cfg) = Ready (?H ! a) ts"
        by auto
    next
      fix e' k ts assume "e' \<in> set (es @ [e]) \<and> startServer lib sys e' = Ready k ts"
      with NotStarted e have "e' \<in> set es" "startServer lib sys e' = Ready k ts" by auto
      then show "\<exists>a. clients m (fst e') = Some a \<and> a < length ?H \<and> ?H ! a = k" by (rule I2)
    next
      fix t a assume "toolToClient m t = Some a"
      from I3 [OF this]
      show "\<exists>e' k ts. e' \<in> set (es @ [e]) \<and> startServer lib sys e' = Ready k ts \<and>
                  clients m (fst e') = Some a \<and> t \<in> Name ` set ts"
        by (simp only: set_append) blast
    next
      fix e' k assume "e' \<in> set (es @ [e]) \<and> startServer lib sys e' = Failed k"
      with NotStarted e have "e' \<in> set es" "startServer lib sys e' = Failed k" by auto
      then show "\<exists>a < length ?H. ?H ! a = k \<and> (\<forall>nm. clients m nm \<noteq> Some a) \<and>
                         (\<forall>t. toolToClient m t \<noteq> Some a)" by (rule I4)
    qed
    with eff show ?thesis by simp
  next
    case (Failed kf)
    with loadServer_effect [where lib = lib and sys = sys and nm = nm and cfg = cfg and m = m and rt = rt]
    have eff: "fst (loadServer lib sys (m, rt) e) = m"
      "heap (snd (loadServer lib sys (m, rt) e)) = ?H @ [kf]"
      by (simp_all add: e)
    have "loaded lib sys n0 (es @ [e]) m (?H @ [kf])"
      unfolding loaded_def
    proof (intro conjI allI impI)
      fix nm' a assume "clients m nm' = Some a"
      from I1 [OF this]
      show "n0 \<le> a" "a < length (?H @ [kf])"
        "\<exists>cfg ts. (nm', cfg) \<in> set (es @ [e]) \<and>
                  startServer lib sys (nm', cfg) = Ready ((?H @ [kf]) ! a) ts"
        by (auto simp: nth_append)
    next
      fix e' k ts assume "e' \<in> set (es @ [e]) \<and> startServer lib sys e' = Ready k ts"
      with Failed e have "e' \<in> set es" "startServer lib sys e' = Ready k ts" by auto
      from I2 [OF this]
      show "\<exists>a. clients m (fst e') = Some a \<and> a < length (?H @ [kf]) \<and> (?H @ [kf]) ! a = k"
        by (auto simp: nth_append)
    next
      fix t a assume "toolToClient m t = Some a"
      from I3 [OF this]
      show "\<exists>e' k ts. e' \<in> set (es @ [e]) \<and> startServer lib sys e' = Ready k ts \<and>
                  clients m (fst e') = Some a \<and> t \<in> Name ` set ts"
        by (simp only: set_append) blast
    next
      fix e' k assume a: "e' \<in> set (es @ [e]) \<and> startServer lib sys e' = Failed k"
      show "\<exists>a < length (?H @ [kf]). (?H @ [kf]) ! a = k \<and> (\<forall>nm. clients m nm \<noteq> Some a) \<and>
                         (\<forall>t. toolToClient m t \<noteq> Some a)"
      proof (cases "e' = e")
        case True
        with a Failed e have "k = kf" by simp
        moreover have "\<forall>nm. clients m nm \<noteq> Some (length ?H)" using I1 by fastforce
        moreover have "\<forall>t. toolToClient m t \<noteq> Some (length ?H)" using I3' by fastforce
        ultimately show ?thesis by (intro exI [of _ "length ?H"]) simp
      next
        case False
        with a have "e' \<in> set es" "startServer lib sys e' = Failed k" by auto
        from I4 [OF this] show ?thesis by (auto simp: nth_append)
      qed
    qed
    with eff show ?thesis by simp
  next
    case (Ready kr ts)
    let ?a = "length ?H"
    let ?m = "mapTools (m\<lparr>clients := (clients m)(nm \<mapsto> ?a)\<rparr>) ?a ts"
    from Ready loadServer_effect [where lib = lib and sys = sys and nm = nm and cfg = cfg and m = m and rt = rt]
    have eff: "fst (loadServer lib sys (m, rt) e) = ?m"
      "heap (snd (loadServer lib sys (m, rt) e)) = ?H @ [kr]"
      by (simp_all add: e)
    have cl: "clients ?m = (clients m)(nm \<mapsto> ?a)" by simp
    have tc: "\<And>t. toolToClient ?m t = (if t \<in> Name ` set ts then Some ?a else toolToClient m t)"
      by (simp add: mapTools_toolToClient)
    have "loaded lib sys n0 (es @ [e]) ?m (?H @ [kr])"
      unfolding loaded_def
    proof (intro conjI allI impI)
      fix nm' a assume c: "clients ?m nm' = Some a"
      have "n0 \<le> a \<and> a < length (?H @ [kr]) \<and>
        (\<exists>cfg ts. (nm', cfg) \<in> set (es @ [e]) \<and>
                  startServer lib sys (nm', cfg) = Ready ((?H @ [kr]) ! a) ts)"
      proof (cases "nm' = nm")
        case True
        with c cl have "a = ?a" by simp
        with True Ready e n0 show ?thesis by auto
      next
        case False
        with c cl have "clients m nm' = Some a" by simp
        from I1 [OF this] show ?thesis by (auto simp: nth_append)
      qed
      then show "n0 \<le> a" "a < length (?H @ [kr])"
        "\<exists>cfg ts. (nm', cfg) \<in> set (es @ [e]) \<and>
                  startServer lib sys (nm', cfg) = Ready ((?H @ [kr]) ! a) ts"
        by blast+
    next
      fix e' k ts' assume a: "e' \<in> set (es @ [e]) \<and> startServer lib sys e' = Ready k ts'"
      show "\<exists>a. clients ?m (fst e') = Some a \<and> a < length (?H @ [kr]) \<and> (?H @ [kr]) ! a = k"
      proof (cases "e' = e")
        case True
        with a Ready e have "k = kr" by simp
        with True e cl show ?thesis by (intro exI [of _ ?a]) simp
      next
        case False
        with a have in_es: "e' \<in> set es" and r: "startServer lib sys e' = Ready k ts'" by auto
        from in_es have "fst e' \<noteq> nm" by (rule nm)
        with I2 [OF in_es r] cl show ?thesis by (auto simp: nth_append)
      qed
    next
      fix t a assume t: "toolToClient ?m t = Some a"
      show "\<exists>e' k ts'. e' \<in> set (es @ [e]) \<and> startServer lib sys e' = Ready k ts' \<and>
                  clients ?m (fst e') = Some a \<and> t \<in> Name ` set ts'"
      proof (cases "t \<in> Name ` set ts")
        case True
        with t tc have "a = ?a" by simp
        with True Ready e cl show ?thesis
          by (intro exI [of _ e] exI [of _ kr] exI [of _ ts]) simp
      next
        case False
        with t tc have "toolToClient m t = Some a" by simp
        from I3 [OF this] obtain e' k ts' where e': "e' \<in> set es"
          "startServer lib sys e' = Ready k ts'" "clients m (fst e') = Some a" "t \<in> Name ` set ts'"
          by blast
        from e'(1) have "fst e' \<noteq> nm" by (rule nm)
        with e' cl show ?thesis
          by (intro exI [of _ e'] exI [of _ k] exI [of _ ts']) simp
      qed
    next
      fix e' k assume a: "e' \<in> set (es @ [e]) \<and> startServer lib sys e' = Failed k"
      with Ready e have "e' \<in> set es" "startServer lib sys e' = Failed k" by auto
      from I4 [OF this] obtain a' where a': "a' < length ?H" "?H ! a' = k"
        "\<forall>nm. clients m nm \<noteq> Some a'" "\<forall>t. toolToClient m t \<noteq> Some a'"
        by blast
      then have "\<forall>nm'. clients ?m nm' \<noteq> Some a'" "\<forall>t. toolToClient ?m t \<noteq> Some a'"
        by (simp_all add: tc)
      with a'(1,2) show "\<exists>a < length (?H @ [kr]). (?H @ [kr]) ! a = k \<and>
            (\<forall>nm. clients ?m nm \<noteq> Some a) \<and> (\<forall>t. toolToClient ?m t \<noteq> Some a)"
        by (intro exI [of _ a']) (simp add: nth_append)
    qed
    with eff show ?thesis by simp
  qed
qed

lemma loadServer_heap_grows:
  "\<exists>T. heap (snd (loadServer lib sys (m, rt) e)) = heap rt @ T"
proof -
  obtain nm cfg where e: "e = (nm, cfg)" by (cases e)
  from loadServer_effect [where lib = lib and sys = sys and nm = nm and cfg = cfg and m = m and rt = rt]
  show ?thesis
    unfolding e by (cases "startServer lib sys (nm, cfg)") simp_all
qed

lemma foldl_loadServer_heap_grows:
  "\<exists>T. heap (snd (foldl (loadServer lib sys) (m, rt) es)) = heap rt @ T"
proof (induction es rule: rev_induct)
  case Nil
  then show ?case by simp
next
  case (snoc e es)
  obtain m1 rt1 where s: "foldl (loadServer lib sys) (m, rt) es = (m1, rt1)"
    by (cases "foldl (loadServer lib sys) (m, rt) es")
  with snoc obtain T where T: "heap rt1 = heap rt @ T" by auto
  from loadServer_heap_grows [of lib sys m1 rt1 e] obtain T' where
    "heap (snd (loadServer lib sys (m1, rt1) e)) = heap rt1 @ T'" by blast
  with s T show ?case by simp
qed

lemma loaded_foldl:
  assumes "distinct (map fst es)"
  shows "loaded lib sys (length (heap rt)) es
           (fst (foldl (loadServer lib sys) (NewManager, rt) es))
           (heap (snd (foldl (loadServer lib sys) (NewManager, rt) es)))"
  using assms
proof (induction es rule: rev_induct)
  case Nil
  then show ?case by (simp add: loaded_empty)
next
  case (snoc e es)
  obtain m1 rt1 where s: "foldl (loadServer lib sys) (NewManager, rt) es = (m1, rt1)"
    by (cases "foldl (loadServer lib sys) (NewManager, rt) es")
  from snoc.prems have d: "distinct (map fst es)" and fresh: "fst e \<notin> fst ` set es" by simp_all
  from snoc.IH [OF d] s have inv: "loaded lib sys (length (heap rt)) es m1 (heap rt1)" by simp
  from foldl_loadServer_heap_grows [of lib sys NewManager rt es] s
  have "length (heap rt) \<le> length (heap rt1)" by auto
  from loaded_step [OF inv this fresh] s show ?case by simp
qed

lemma loadServer_keeps:
  assumes "\<not> exposes lib sys tool e" and "fst e \<noteq> nm"
  shows "toolToClient (fst (loadServer lib sys (m, rt) e)) tool = toolToClient m tool"
    and "clients (fst (loadServer lib sys (m, rt) e)) nm = clients m nm"
proof -
  obtain nm' cfg where e: "e = (nm', cfg)" by (cases e)
  from loadServer_effect [where lib = lib and sys = sys and nm = nm' and cfg = cfg and m = m and rt = rt]
    assms
  show "toolToClient (fst (loadServer lib sys (m, rt) e)) tool = toolToClient m tool"
    and "clients (fst (loadServer lib sys (m, rt) e)) nm = clients m nm"
    unfolding e
    by (cases "startServer lib sys (nm', cfg)"; simp add: exposes_def mapTools_toolToClient)+
qed

lemma foldl_loadServer_keeps:
  assumes "\<forall>e \<in> set es. \<not> exposes lib sys tool e" and "nm \<notin> fst ` set es"
  shows "toolToClient (fst (foldl (loadServer lib sys) (m, rt) es)) tool = toolToClient m tool"
    and "clients (fst (foldl (loadServer lib sys) (m, rt) es)) nm = clients m nm"
  using assms
proof (induction es rule: rev_induct)
  case Nil
  { case 1 then show ?case by simp }
  { case 2 then show ?case by simp }
next
  case (snoc e es)
  obtain m1 rt1 where s: "foldl (loadServer lib sys) (m, rt) es = (m1, rt1)"
    by (cases "foldl (loadServer lib sys) (m, rt) es")
  { case 1
    then have "\<not> exposes lib sys tool e" "fst e \<noteq> nm" by auto
    from loadServer_keeps(1) [OF this, of m1 rt1] snoc.IH(1) 1 s
    show ?case by simp }
  { case 2
    then have "\<not> exposes lib sys tool e" "fst e \<noteq> nm" by auto
    from loadServer_keeps(2) [OF this, of m1 rt1] snoc.IH(2) 2 s
    show ?case by simp }
qed

lemma foldl_loadServer_keeps_clients:
  assumes "nm \<notin> fst ` set es"
  shows "clients (fst (foldl (loadServer lib sys) (m, rt) es)) nm = clients m nm"
  using assms
proof (induction es rule: rev_induct)
  case Nil
  then show ?case by simp
next
  case (snoc e es)
  obtain m1 rt1 where s: "foldl (loadServer lib sys) (m, rt) es = (m1, rt1)"
    by (cases "foldl (loadServer lib sys) (m, rt) es")
  obtain nm' cfg where e: "e = (nm', cfg)" by (cases e)
  from snoc.prems e have ne: "nm' \<noteq> nm" by auto
  from loadServer_effect [where lib = lib and sys = sys and nm = nm' and cfg = cfg and m = m1 and rt = rt1]
  have "clients (fst (loadServer lib sys (m1, rt1) (nm', cfg))) nm = clients m1 nm"
    using ne by (cases "startServer lib sys (nm', cfg)") simp_all
  with snoc s e show ?case by simp
qed

section \<open>What a started server is\<close>

lemma constructed_name: "constructed sys nm cfg = Some k \<Longrightarrow> MCPClient_Name k = nm"
  by (auto simp: constructed_def NewClient_def NewHTTPClient_def MCPClient_Name_def
        Client_Name_def HTTPClient_Name_def split: if_splits sum.splits spawn.splits)

lemma MCPClient_Initialize_name:
  "MCPClient_Name (snd (MCPClient_Initialize lib k)) = MCPClient_Name k"
proof (cases k)
  case (ProcessConn c)
  obtain r c' where s: "sendRequest lib c ''initialize'' (Some initializeParams) = (r, c')"
    by (cases "sendRequest lib c ''initialize'' (Some initializeParams)")
  with sendRequest_name [of lib c "''initialize''" "Some initializeParams"] have "name c' = name c"
    by simp
  with ProcessConn s show ?thesis
    by (cases r) (simp_all add: MCPClient_Initialize_def Client_Initialize_def MCPClient_Name_def
                    Client_Name_def)
next
  case (HTTPConn h)
  obtain r h' where s: "HTTPClient_sendRequest lib h ''initialize'' (Some initializeParams) = (r, h')"
    by (cases "HTTPClient_sendRequest lib h ''initialize'' (Some initializeParams)")
  with HTTPClient_sendRequest_name [of lib h "''initialize''" "Some initializeParams"]
  have "http_name h' = http_name h" by simp
  with HTTPConn s show ?thesis
    by (cases r) (simp_all add: MCPClient_Initialize_def HTTPClient_Initialize_def MCPClient_Name_def
                    HTTPClient_Name_def)
qed

lemma MCPClient_ListTools_name:
  "MCPClient_Name (snd (MCPClient_ListTools lib k)) = MCPClient_Name k"
proof (cases k)
  case (ProcessConn c)
  obtain r c' where s: "sendRequest lib c ''tools/list'' None = (r, c')"
    by (cases "sendRequest lib c ''tools/list'' None")
  with sendRequest_name [of lib c "''tools/list''" None] have "name c' = name c"
    by simp
  with ProcessConn s show ?thesis
    by (cases r) (simp_all add: MCPClient_ListTools_def Client_ListTools_def MCPClient_Name_def
                    Client_Name_def split: option.splits)
next
  case (HTTPConn h)
  obtain r h' where s: "HTTPClient_sendRequest lib h ''tools/list'' None = (r, h')"
    by (cases "HTTPClient_sendRequest lib h ''tools/list'' None")
  with HTTPClient_sendRequest_name [of lib h "''tools/list''" None]
  have "http_name h' = http_name h" by simp
  with HTTPConn s show ?thesis
    by (cases r) (simp_all add: MCPClient_ListTools_def HTTPClient_ListTools_def MCPClient_Name_def
                    HTTPClient_Name_def split: option.splits)
qed

lemma MCPClient_ListTools_cache:
  "fst (MCPClient_ListTools lib k) = Inr ts \<Longrightarrow> MCPClient_Tools (snd (MCPClient_ListTools lib k)) = ts"
proof (cases k)
  case (ProcessConn c)
  assume "fst (MCPClient_ListTools lib k) = Inr ts"
  with ProcessConn Client_ListTools_cache [of lib c] show ?thesis
    by (simp add: MCPClient_ListTools_def MCPClient_Tools_def)
next
  case (HTTPConn h)
  assume "fst (MCPClient_ListTools lib k) = Inr ts"
  with HTTPConn HTTPClient_ListTools_cache [of lib h] show ?thesis
    by (simp add: MCPClient_ListTools_def MCPClient_Tools_def)
qed

lemma released_Close: "released (MCPClient_Close k)"
  by (cases k) (simp_all add: released_def MCPClient_Close_def Client_Close_def)

lemma startServer_cases:
  obtains (none) "constructed sys (fst e) (snd e) = None" "startServer lib sys e = NotStarted"
  | (init) k err k1 where "constructed sys (fst e) (snd e) = Some k"
      "MCPClient_Initialize lib k = (Some err, k1)" "startServer lib sys e = Failed (MCPClient_Close k1)"
  | (list) k k1 err k2 where "constructed sys (fst e) (snd e) = Some k"
      "MCPClient_Initialize lib k = (None, k1)" "MCPClient_ListTools lib k1 = (Inl err, k2)"
      "startServer lib sys e = Failed (MCPClient_Close k2)"
  | (ready) k k1 ts k2 where "constructed sys (fst e) (snd e) = Some k"
      "MCPClient_Initialize lib k = (None, k1)" "MCPClient_ListTools lib k1 = (Inr ts, k2)"
      "startServer lib sys e = Ready k2 ts"
proof (cases "constructed sys (fst e) (snd e)")
  case None
  then show ?thesis by (intro none) (simp_all add: startServer_def)
next
  case (Some k)
  obtain r1 k1 where i: "MCPClient_Initialize lib k = (r1, k1)"
    by (cases "MCPClient_Initialize lib k")
  show ?thesis
  proof (cases r1)
    case (Some err)
    with \<open>constructed sys (fst e) (snd e) = Some k\<close> i show ?thesis
      by (intro init [of k err k1]) (simp_all add: startServer_def)
  next
    case None
    obtain r2 k2 where l: "MCPClient_ListTools lib k1 = (r2, k2)"
      by (cases "MCPClient_ListTools lib k1")
    show ?thesis
    proof (cases r2)
      case (Inl err)
      with \<open>constructed sys (fst e) (snd e) = Some k\<close> i None l show ?thesis
        by (intro list [of k k1 err k2]) (simp_all add: startServer_def)
    next
      case (Inr ts)
      with \<open>constructed sys (fst e) (snd e) = Some k\<close> i None l show ?thesis
        by (intro ready [of k k1 ts k2]) (simp_all add: startServer_def)
    qed
  qed
qed

lemma startServer_Ready:
  assumes "startServer lib sys e = Ready k ts"
  shows "MCPClient_Name k = fst e" and "MCPClient_Tools k = ts"
proof -
  from assms obtain k0 k1 where c: "constructed sys (fst e) (snd e) = Some k0"
    and i: "MCPClient_Initialize lib k0 = (None, k1)"
    and l: "MCPClient_ListTools lib k1 = (Inr ts, k)"
    by (cases rule: startServer_cases [of sys e lib]) simp_all
  from MCPClient_ListTools_name [of lib k1] l have "MCPClient_Name k = MCPClient_Name k1" by simp
  also from MCPClient_Initialize_name [of lib k0] i have "\<dots> = MCPClient_Name k0" by simp
  also from c have "\<dots> = fst e" by (rule constructed_name)
  finally show "MCPClient_Name k = fst e" .
  from MCPClient_ListTools_cache [of lib k1 ts] l show "MCPClient_Tools k = ts" by simp
qed

lemma startServer_Failed:
  assumes "startServer lib sys e = Failed k"
  shows "released k"
  using assms by (cases rule: startServer_cases [of sys e lib]) (auto simp: released_Close)

lemma survives_iff: "survives lib sys e \<longleftrightarrow> (\<exists>k ts. startServer lib sys e = Ready k ts)"
  by (cases "startServer lib sys e") (simp_all add: survives_def)

lemma LoadFromConfig_loaded:
  assumes "LoadMCPConfig lib sys path = Inr config"
  shows "LoadFromConfig lib sys m rt path =
           (None, foldl (loadServer lib sys) (m, rt) (rangeServers config))"
  using assms by (simp add: LoadFromConfig_def split: prod.splits)

lemma card_survivors:
  assumes "distinct (map fst es)"
  shows "card (fst ` {e \<in> set es. P e}) = length es - length (filter (\<lambda>e. \<not> P e) es)"
proof -
  from assms have d: "distinct es" and inj: "inj_on fst (set es)"
    by (simp_all add: distinct_map)
  have S: "{e \<in> set es. P e} = set (filter P es)" by auto
  have "inj_on fst {e \<in> set es. P e}"
    by (rule inj_on_subset [OF inj]) auto
  then have "card (fst ` {e \<in> set es. P e}) = card {e \<in> set es. P e}"
    by (rule card_image)
  also have "\<dots> = card (set (filter P es))" by (simp only: S)
  also from d have "\<dots> = length (filter P es)"
    by (intro distinct_card distinct_filter)
  also have "\<dots> = length es - length (filter (\<lambda>e. \<not> P e) es)"
    using sum_length_filter_compl [of P es] by simp
  finally show ?thesis .
qed

text \<open>
  C1. For a configuration of N servers (the entries of the map, their names distinct)
  loaded into a new manager, of which k do not come through construction,
  \<open>Initialize\<close> and \<open>ListTools\<close>: \<open>LoadFromConfig\<close> returns no error; the names in its
  client set are exactly those of the survivors, N - k of them, each pointing to that
  server's connection (which bears its name and caches the tools it listed); every
  entry of the routing table points to a registered survivor that listed the tool;
  and the connection of every server that failed after construction is closed, in the
  store, and pointed to by neither map. Survivors are registered wherever the
  failures stand in the order.
\<close>

theorem LoadFromConfig_partial_failure:
  assumes "LoadMCPConfig lib sys path = Inr config"
      and "distinct (map fst (rangeServers config))"
      and "LoadFromConfig lib sys NewManager rt path = (err, m, rt')"
  shows "err = None \<and>
    dom (clients m) = fst ` {e \<in> set (rangeServers config). survives lib sys e} \<and>
    card (dom (clients m)) =
      length (rangeServers config) -
      length (filter (\<lambda>e. \<not> survives lib sys e) (rangeServers config)) \<and>
    (\<forall>e k ts. e \<in> set (rangeServers config) \<and> startServer lib sys e = Ready k ts \<longrightarrow>
       (\<exists>a. clients m (fst e) = Some a \<and> object_at rt' a = Some k \<and>
            MCPClient_Name k = fst e \<and> MCPClient_Tools k = ts)) \<and>
    (\<forall>t a. toolToClient m t = Some a \<longrightarrow>
       (\<exists>e k ts. e \<in> set (rangeServers config) \<and> startServer lib sys e = Ready k ts \<and>
                 clients m (fst e) = Some a \<and> object_at rt' a = Some k \<and> t \<in> Name ` set ts)) \<and>
    (\<forall>e k. e \<in> set (rangeServers config) \<and> startServer lib sys e = Failed k \<longrightarrow>
       released k \<and>
       (\<exists>a. object_at rt' a = Some k \<and> a \<notin> ran (clients m) \<and> a \<notin> ran (toolToClient m)))"
proof -
  let ?es = "rangeServers config"
  let ?H = "heap rt'"
  from LoadFromConfig_loaded [OF assms(1), of NewManager rt] assms(3)
  have err: "err = None" and f: "foldl (loadServer lib sys) (NewManager, rt) ?es = (m, rt')"
    by simp_all
  from loaded_foldl [OF assms(2), of lib sys rt] f
  have inv: "loaded lib sys (length (heap rt)) ?es m ?H" by simp
  then have I1: "\<And>nm a. clients m nm = Some a \<Longrightarrow>
        a < length ?H \<and>
        (\<exists>cfg ts. (nm, cfg) \<in> set ?es \<and> startServer lib sys (nm, cfg) = Ready (?H ! a) ts)"
    and I2: "\<And>e k ts. e \<in> set ?es \<Longrightarrow> startServer lib sys e = Ready k ts \<Longrightarrow>
        (\<exists>a. clients m (fst e) = Some a \<and> a < length ?H \<and> ?H ! a = k)"
    and I3: "\<And>t a. toolToClient m t = Some a \<Longrightarrow>
        (\<exists>e k ts. e \<in> set ?es \<and> startServer lib sys e = Ready k ts \<and>
                  clients m (fst e) = Some a \<and> t \<in> Name ` set ts)"
    and I4: "\<And>e k. e \<in> set ?es \<Longrightarrow> startServer lib sys e = Failed k \<Longrightarrow>
        (\<exists>a < length ?H. ?H ! a = k \<and> (\<forall>nm. clients m nm \<noteq> Some a) \<and>
                         (\<forall>t. toolToClient m t \<noteq> Some a))"
    unfolding loaded_def by blast+
  have dom: "dom (clients m) = fst ` {e \<in> set ?es. survives lib sys e}"
  proof (intro set_eqI iffI)
    fix nm assume "nm \<in> dom (clients m)"
    then obtain a where "clients m nm = Some a" by auto
    from I1 [OF this] obtain cfg ts where "(nm, cfg) \<in> set ?es"
      "startServer lib sys (nm, cfg) = Ready (?H ! a) ts" by blast
    then have "(nm, cfg) \<in> {e \<in> set ?es. survives lib sys e}"
      by (auto simp: survives_iff)
    then show "nm \<in> fst ` {e \<in> set ?es. survives lib sys e}" by force
  next
    fix nm assume "nm \<in> fst ` {e \<in> set ?es. survives lib sys e}"
    then obtain e where e: "e \<in> set ?es" "survives lib sys e" "nm = fst e" by auto
    then obtain k ts where "startServer lib sys e = Ready k ts" by (auto simp: survives_iff)
    from I2 [OF e(1) this] e(3) show "nm \<in> dom (clients m)" by auto
  qed
  have card: "card (dom (clients m)) =
      length ?es - length (filter (\<lambda>e. \<not> survives lib sys e) ?es)"
    unfolding dom by (rule card_survivors [OF assms(2)])
  have ready: "\<exists>a. clients m (fst e) = Some a \<and> object_at rt' a = Some k \<and>
            MCPClient_Name k = fst e \<and> MCPClient_Tools k = ts"
    if "e \<in> set ?es \<and> startServer lib sys e = Ready k ts" for e k ts
  proof -
    from that have e: "e \<in> set ?es" and r: "startServer lib sys e = Ready k ts" by simp_all
    from I2 [OF e r] obtain a where "clients m (fst e) = Some a" "a < length ?H" "?H ! a = k"
      by blast
    with startServer_Ready [OF r] show ?thesis
      by (intro exI [of _ a]) (simp add: object_at_def)
  qed
  have routed: "\<exists>e k ts. e \<in> set ?es \<and> startServer lib sys e = Ready k ts \<and>
                 clients m (fst e) = Some a \<and> object_at rt' a = Some k \<and> t \<in> Name ` set ts"
    if "toolToClient m t = Some a" for t a
  proof -
    from I3 [OF that] obtain e k ts where e: "e \<in> set ?es" "startServer lib sys e = Ready k ts"
      "clients m (fst e) = Some a" "t \<in> Name ` set ts" by blast
    from I2 [OF e(1,2)] e(3) have "a < length ?H" "?H ! a = k" by auto
    with e show ?thesis
      by (intro exI [of _ e] exI [of _ k] exI [of _ ts]) (simp add: object_at_def)
  qed
  have failed: "released k \<and>
       (\<exists>a. object_at rt' a = Some k \<and> a \<notin> ran (clients m) \<and> a \<notin> ran (toolToClient m))"
    if "e \<in> set ?es \<and> startServer lib sys e = Failed k" for e k
  proof -
    from that have e: "e \<in> set ?es" and r: "startServer lib sys e = Failed k" by simp_all
    from I4 [OF e r] obtain a where "a < length ?H" "?H ! a = k"
      "\<forall>nm. clients m nm \<noteq> Some a" "\<forall>t. toolToClient m t \<noteq> Some a" by blast
    then have "object_at rt' a = Some k \<and> a \<notin> ran (clients m) \<and> a \<notin> ran (toolToClient m)"
      by (auto simp: object_at_def ran_def)
    with startServer_Failed [OF r] show ?thesis by blast
  qed
  from err dom card ready routed failed show ?thesis by blast
qed

section \<open>The example configuration\<close>

lemma demo_nth0:
  "line_note ! 0 = CHR ''{''"
  "line_ok1 ! 0 = CHR ''{''"
  "line_echo2 ! 0 = CHR ''{''"
  "line_note \<noteq> []" "line_ok1 \<noteq> []" "line_echo2 \<noteq> []"
  by (simp_all add: line_note_def line_ok1_def line_echo2_def)

lemma demo_start_a:
  "startServer demo_lib demo_sys (''a'', cfg_a) =
     Ready (ProcessConn \<lparr>name = ''a'', requestID = 2, tools = [tool_echo],
              stdin_sent = [''initialize\<newline>'', ''tools/list\<newline>''], stdin_faults = [],
              stdin_closed = False, stdout = [], running = True\<rparr>) [tool_echo]"
  apply (simp add: startServer_def constructed_def IsStdio_def cfg_a_def NewClient_def demo_sys_def)
  apply (simp add: MCPClient_Initialize_def Client_Initialize_def sendRequest_def stdin_Write_def
      demo_marshal [unfolded requestOf_def] Let_def)
  apply (simp add: scan.simps maxAttempts_def demo_TrimSpace demo_nth0 demo_Unmarshal_Response Let_def)
  apply (simp add: resp_note_def resp_ok1_def)
  apply (simp add: MCPClient_ListTools_def Client_ListTools_def sendRequest_def stdin_Write_def
      demo_marshal [unfolded requestOf_def] Let_def)
  apply (simp add: scan.simps maxAttempts_def demo_TrimSpace demo_nth0 demo_Unmarshal_Response Let_def)
  apply (simp add: resp_echo2_def rawBytes_def demo_Unmarshal_ToolsList)
  done

lemma demo_start_b:
  "startServer demo_lib demo_sys (''b'', cfg_b) =
     Ready (HTTPConn \<lparr>http_name = ''b'', baseURL = ''u'', http_requestID = 2,
              http_tools = [tool_echo], isSSE = False,
              http_posts = [(''u'', ''initialize''), (''u'', ''tools/list'')],
              http_replies = []\<rparr>) [tool_echo]"
  apply (simp add: startServer_def constructed_def IsStdio_def IsHTTP_def IsSSE_def cfg_b_def
      NewHTTPClient_def demo_sys_def)
  apply (simp add: MCPClient_Initialize_def HTTPClient_Initialize_def HTTPClient_sendRequest_def
      httpClient_Do_def demo_marshal [unfolded requestOf_def] demo_Unmarshal_Response Let_def)
  apply (simp add: demo_lib_def resp_ok1_def)
  apply (simp add: MCPClient_ListTools_def HTTPClient_ListTools_def HTTPClient_sendRequest_def
      httpClient_Do_def Let_def)
  apply (simp add: demo_lines resp_echo2_def rawBytes_def text_echo_def)
  done

lemma demo_start_c: "startServer demo_lib demo_sys (''c'', cfg_c) = NotStarted"
  by (simp add: startServer_def constructed_def IsStdio_def cfg_c_def NewClient_def demo_sys_def)

lemma demo_start_d:
  "startServer demo_lib demo_sys (''d'', cfg_d) =
     Failed (ProcessConn \<lparr>name = ''d'', requestID = 1, tools = [],
              stdin_sent = [''initialize\<newline>''], stdin_faults = [],
              stdin_closed = True, stdout = [], running = False\<rparr>)"
  apply (simp add: startServer_def constructed_def IsStdio_def cfg_d_def NewClient_def demo_sys_def)
  apply (simp add: MCPClient_Initialize_def Client_Initialize_def sendRequest_def stdin_Write_def
      demo_marshal [unfolded requestOf_def] Let_def)
  apply (simp add: scan.simps maxAttempts_def MCPClient_Close_def Client_Close_def)
  done

lemma demo_load: "LoadMCPConfig demo_lib demo_sys ''mcp.json'' = Inr demo_config"
  by (simp add: LoadMCPConfig_def expandHome_def demo_sys_def, simp add: demo_lib_def demo_config_def)

lemma demo_range:
  "rangeServers demo_config = [(''a'', cfg_a), (''b'', cfg_b), (''c'', cfg_c), (''d'', cfg_d)]"
  by (simp add: rangeServers_def demo_config_def)

lemma demo_survives:
  "survives demo_lib demo_sys (''a'', cfg_a)"
  "survives demo_lib demo_sys (''b'', cfg_b)"
  "\<not> survives demo_lib demo_sys (''c'', cfg_c)"
  "\<not> survives demo_lib demo_sys (''d'', cfg_d)"
  by (simp_all add: survives_def demo_start_a demo_start_b demo_start_c demo_start_d)

theorem LoadFromConfig_partial_failure_witness:
  "fst (LoadFromConfig demo_lib demo_sys NewManager rt0 ''mcp.json'') = None \<and>
   dom (clients (fst (snd (LoadFromConfig demo_lib demo_sys NewManager rt0 ''mcp.json'')))) =
     {''a'', ''b''} \<and>
   card (dom (clients (fst (snd (LoadFromConfig demo_lib demo_sys NewManager rt0 ''mcp.json''))))) =
     4 - 2"
proof -
  obtain err m rt' where L: "LoadFromConfig demo_lib demo_sys NewManager rt0 ''mcp.json'' = (err, m, rt')"
    by (cases "LoadFromConfig demo_lib demo_sys NewManager rt0 ''mcp.json''")
  have d: "distinct (map fst (rangeServers demo_config))"
    by (simp add: demo_range)
  have s: "{e \<in> set (rangeServers demo_config). survives demo_lib demo_sys e} =
             {(''a'', cfg_a), (''b'', cfg_b)}"
    by (auto simp: demo_range demo_survives)
  have n: "length (rangeServers demo_config) = 4"
    "length (filter (\<lambda>e. \<not> survives demo_lib demo_sys e) (rangeServers demo_config)) = 2"
    by (simp_all add: demo_range demo_survives)
  from LoadFromConfig_partial_failure [OF demo_load d L]
  have "err = None" "dom (clients m) = fst ` {(''a'', cfg_a), (''b'', cfg_b)}"
    "card (dom (clients m)) = 4 - 2"
    unfolding s n by blast+
  with L show ?thesis by simp
qed

text \<open>
  C2. When two entries of the configuration both become ready and both list a tool of
  the same name, and no entry processed after the later of the two lists that name,
  then after \<open>LoadFromConfig\<close> the routing table maps the name to the later entry's
  connection and not to the earlier one's, and \<open>ExecuteTool\<close> on the name returns what
  \<open>CallTool\<close> of that later connection returns.
\<close>

theorem last_writer_wins:
  assumes "LoadMCPConfig lib sys path = Inr config"
      and "rangeServers config = pre @ e1 # mid @ e2 # post"
      and "distinct (map fst (rangeServers config))"
      and "startServer lib sys e1 = Ready k1 ts1" and "tool \<in> Name ` set ts1"
      and "startServer lib sys e2 = Ready k2 ts2" and "tool \<in> Name ` set ts2"
      and "\<forall>e \<in> set post. \<not> exposes lib sys tool e"
      and "LoadFromConfig lib sys NewManager rt path = (err, m, rt')"
  shows "\<exists>a1 a2. clients m (fst e1) = Some a1 \<and> clients m (fst e2) = Some a2 \<and> a1 \<noteq> a2 \<and>
           toolToClient m tool = Some a2 \<and> object_at rt' a2 = Some k2 \<and>
           MCPClient_Name k2 = fst e2 \<and>
           fst (ExecuteTool lib m rt' tool args) = fst (MCPClient_CallTool lib k2 tool args)"
proof -
  let ?f = "loadServer lib sys"
  let ?front = "pre @ e1 # mid"
  obtain m1 rt1 where s1: "foldl ?f (NewManager, rt) ?front = (m1, rt1)"
    by (cases "foldl ?f (NewManager, rt) ?front")
  obtain m2 rt2 where s2: "?f (m1, rt1) e2 = (m2, rt2)"
    by (cases "?f (m1, rt1) e2")
  from LoadFromConfig_loaded [OF assms(1), of NewManager rt] assms(2,9) s1 s2
  have s3: "foldl ?f (m2, rt2) post = (m, rt')"
    by simp
  from assms(2,3) have d1: "distinct (map fst ?front)"
    and n1: "fst e1 \<notin> fst ` set post" and n2: "fst e2 \<notin> fst ` set post"
    and n12: "fst e1 \<noteq> fst e2"
    by auto
  from loaded_foldl [OF d1, of lib sys rt] s1
  have inv: "loaded lib sys (length (heap rt)) ?front m1 (heap rt1)" by simp
  have "e1 \<in> set ?front" by simp
  with inv assms(4) obtain a1 where a1: "clients m1 (fst e1) = Some a1" "a1 < length (heap rt1)"
    unfolding loaded_def by blast
  let ?a2 = "length (heap rt1)"
  obtain nm2 cfg2 where e2: "e2 = (nm2, cfg2)" by (cases e2)
  from loadServer_effect [where lib = lib and sys = sys and nm = nm2 and cfg = cfg2 and m = m1 and rt = rt1]
    assms(6) s2
  have m2: "m2 = mapTools (m1\<lparr>clients := (clients m1)(nm2 \<mapsto> ?a2)\<rparr>) ?a2 ts2"
    and h2: "heap rt2 = heap rt1 @ [k2]"
    by (simp_all add: e2)
  from m2 assms(7) have t2: "toolToClient m2 tool = Some ?a2"
    by (simp add: mapTools_toolToClient)
  from m2 e2 have c2: "clients m2 (fst e2) = Some ?a2" by simp
  from m2 e2 n12 a1 have c1: "clients m2 (fst e1) = Some a1" by simp
  from foldl_loadServer_keeps(1) [OF assms(8) n2, of m2 rt2] s3 t2
  have t: "toolToClient m tool = Some ?a2" by simp
  from foldl_loadServer_keeps_clients [OF n2, of lib sys m2 rt2] s3 c2
  have c2': "clients m (fst e2) = Some ?a2" by simp
  from foldl_loadServer_keeps_clients [OF n1, of lib sys m2 rt2] s3 c1
  have c1': "clients m (fst e1) = Some a1" by simp
  from foldl_loadServer_heap_grows [of lib sys m2 rt2 post] s3 h2
  obtain T where "heap rt' = (heap rt1 @ [k2]) @ T" by auto
  then have o: "object_at rt' ?a2 = Some k2"
    by (simp add: object_at_def nth_append)
  from t o have x: "fst (ExecuteTool lib m rt' tool args) = fst (MCPClient_CallTool lib k2 tool args)"
    by (simp add: ExecuteTool_def invoke_def split: prod.splits)
  from a1(2) have "a1 \<noteq> ?a2" by simp
  with c1' c2' t o x startServer_Ready(1) [OF assms(6)] show ?thesis
    by (intro exI [of _ a1] exI [of _ ?a2]) simp
qed

theorem last_writer_wins_witness:
  "toolToClient (fst (snd (LoadFromConfig demo_lib demo_sys NewManager rt0 ''mcp.json''))) ''echo'' =
     clients (fst (snd (LoadFromConfig demo_lib demo_sys NewManager rt0 ''mcp.json''))) ''b'' \<and>
   toolToClient (fst (snd (LoadFromConfig demo_lib demo_sys NewManager rt0 ''mcp.json''))) ''echo'' \<noteq>
     clients (fst (snd (LoadFromConfig demo_lib demo_sys NewManager rt0 ''mcp.json''))) ''a'' \<and>
   toolToClient (fst (snd (LoadFromConfig demo_lib demo_sys NewManager rt0 ''mcp.json''))) ''echo'' \<noteq>
     None"
proof -
  obtain err m rt' where L: "LoadFromConfig demo_lib demo_sys NewManager rt0 ''mcp.json'' = (err, m, rt')"
    by (cases "LoadFromConfig demo_lib demo_sys NewManager rt0 ''mcp.json''")
  have r: "rangeServers demo_config = [] @ (''a'', cfg_a) # [] @ (''b'', cfg_b) # [(''c'', cfg_c), (''d'', cfg_d)]"
    by (simp add: demo_range)
  have d: "distinct (map fst (rangeServers demo_config))"
    by (simp add: demo_range)
  have t: "''echo'' \<in> Name ` set [tool_echo]" by (simp add: tool_echo_def)
  have p: "\<forall>e \<in> set [(''c'', cfg_c), (''d'', cfg_d)]. \<not> exposes demo_lib demo_sys ''echo'' e"
    by (simp add: exposes_def demo_start_c demo_start_d)
  from last_writer_wins [OF demo_load r d demo_start_a t demo_start_b t p L, of JNull]
  obtain a1 a2 where "clients m (fst (''a'', cfg_a)) = Some a1" "clients m (fst (''b'', cfg_b)) = Some a2"
    "a1 \<noteq> a2" "toolToClient m ''echo'' = Some a2"
    by blast
  with L show ?thesis by simp
qed

end
